theory Spec2Isabelle
  imports Complex_Main "HOL-Library.AList"
begin

section \<open>Python values of the design record\<close>

text \<open>
  The checkers and the orchestrator take and return plain Python dictionaries, so the
  embedding works on a datatype of Python values. Floats are modelled as real numbers
  (no rounding, no overflow, no NaN or infinity); \<open>math.pi\<close> and \<open>math.sqrt\<close> are
  the reals' \<open>pi\<close> and \<open>sqrt\<close>. A dictionary is an association list in insertion
  order with string keys.

  Text comes in three kinds, told apart by what \<open>float()\<close> and \<open>int()\<close> make of it:
  \<open>PFloatStr r\<close> is the text \<open>str(r)\<close> of a float (read back by \<open>float()\<close> as \<open>r\<close>,
  refused by \<open>int()\<close>), \<open>PIntStr i\<close> is the text of an integer literal, and
  \<open>PStr s\<close> is any other text \<open>s\<close>, which both conversions refuse.
\<close>

datatype exn =
    AttributeError | KeyError | TypeError | ValueError | ZeroDivisionError | UnboundLocalError

datatype pyval =
    PNone
  | PBool bool
  | PInt int
  | PFloat real
  | PStr string
  | PIntStr int
  | PFloatStr real
  | PList "pyval list"
  | PDict "(string \<times> pyval) list"

text \<open>The text of \<open>str(e)\<close> for a caught exception is abstracted to the exception's kind.\<close>

fun exn_text :: "exn \<Rightarrow> string" where
  "exn_text AttributeError = ''AttributeError''"
| "exn_text KeyError = ''KeyError''"
| "exn_text TypeError = ''TypeError''"
| "exn_text ValueError = ''ValueError''"
| "exn_text ZeroDivisionError = ''ZeroDivisionError''"
| "exn_text UnboundLocalError = ''UnboundLocalError''"

text \<open>Sequencing of computations that may raise: the first exception ends the chain.\<close>

definition ebind :: "exn + 'a \<Rightarrow> ('a \<Rightarrow> exn + 'b) \<Rightarrow> exn + 'b" where
  "ebind m f = (case m of Inl e \<Rightarrow> Inl e | Inr x \<Rightarrow> f x)"

text \<open>\<open>float(v)\<close>, \<open>int(v)\<close> and truthiness.\<close>

fun float_of :: "pyval \<Rightarrow> exn + real" where
  "float_of (PFloat r) = Inr r"
| "float_of (PInt i) = Inr (of_int i)"
| "float_of (PBool b) = Inr (if b then 1 else 0)"
| "float_of (PFloatStr r) = Inr r"
| "float_of (PIntStr i) = Inr (of_int i)"
| "float_of (PStr s) = Inl ValueError"
| "float_of PNone = Inl TypeError"
| "float_of (PList xs) = Inl TypeError"
| "float_of (PDict kvs) = Inl TypeError"

fun int_of :: "pyval \<Rightarrow> exn + int" where
  "int_of (PInt i) = Inr i"
| "int_of (PFloat r) = Inr (if 0 \<le> r then \<lfloor>r\<rfloor> else \<lceil>r\<rceil>)"
| "int_of (PBool b) = Inr (if b then 1 else 0)"
| "int_of (PIntStr i) = Inr i"
| "int_of (PFloatStr r) = Inl ValueError"
| "int_of (PStr s) = Inl ValueError"
| "int_of PNone = Inl TypeError"
| "int_of (PList xs) = Inl TypeError"
| "int_of (PDict kvs) = Inl TypeError"

fun truthy :: "pyval \<Rightarrow> bool" where
  "truthy PNone = False"
| "truthy (PBool b) = b"
| "truthy (PInt i) = (i \<noteq> 0)"
| "truthy (PFloat r) = (r \<noteq> 0)"
| "truthy (PStr s) = (s \<noteq> [])"
| "truthy (PIntStr i) = True"
| "truthy (PFloatStr r) = True"
| "truthy (PList xs) = (xs \<noteq> [])"
| "truthy (PDict kvs) = (kvs \<noteq> [])"

text \<open>
  \<open>d.get(k, default)\<close> (an AttributeError on anything but a dictionary), \<open>d[k]\<close>
  (a KeyError on a missing key, a TypeError on a value that is not subscriptable by a
  string) and \<open>d[k] = v\<close> on a dictionary.
\<close>

fun dict_get :: "pyval \<Rightarrow> string \<Rightarrow> pyval \<Rightarrow> exn + pyval" where
  "dict_get (PDict kvs) k dflt = Inr (case map_of kvs k of Some v \<Rightarrow> v | None \<Rightarrow> dflt)"
| "dict_get _ k dflt = Inl AttributeError"

fun subscript :: "pyval \<Rightarrow> string \<Rightarrow> exn + pyval" where
  "subscript (PDict kvs) k = (case map_of kvs k of Some v \<Rightarrow> Inr v | None \<Rightarrow> Inl KeyError)"
| "subscript _ k = Inl TypeError"

definition get_float :: "pyval \<Rightarrow> string \<Rightarrow> pyval \<Rightarrow> exn + real" where
  "get_float d k dflt = ebind (dict_get d k dflt) float_of"

text \<open>Float division and \<open>math.sqrt\<close>, with the exceptions Python raises.\<close>

definition py_div :: "real \<Rightarrow> real \<Rightarrow> exn + real" where
  "py_div a b = (if b = 0 then Inl ZeroDivisionError else Inr (a / b))"

definition py_sqrt :: "real \<Rightarrow> exn + real" where
  "py_sqrt x = (if x < 0 then Inl ValueError else Inr (sqrt x))"

text \<open>\<open>round(x, n)\<close> on a float: to the nearest multiple of \<open>10^-n\<close>, ties to even.\<close>

definition py_round :: "real \<Rightarrow> nat \<Rightarrow> real" where
  "py_round x n =
     (let y = x * 10 ^ n; f = \<lfloor>y\<rfloor>
      in (if y - of_int f < 1 / 2 then of_int f
          else if 1 / 2 < y - of_int f then of_int f + 1
          else if even f then of_int f else of_int f + 1) / 10 ^ n)"

text \<open>\<open>round(v, n)\<close> on a value that is an int or a float: an int is returned unchanged.\<close>

fun round_num :: "pyval \<Rightarrow> nat \<Rightarrow> pyval" where
  "round_num (PFloat r) n = PFloat (py_round r n)"
| "round_num v n = v"

section \<open>formulas.py\<close>

text \<open>
  \<open>table_get t key dflt\<close> is \<open>t.get(key, dflt)\<close> on a table with string keys: a list
  or a dictionary as key is unhashable (TypeError), any other key that is not in the
  table gives the default.
\<close>

fun table_get :: "(string \<times> real) list \<Rightarrow> pyval \<Rightarrow> real \<Rightarrow> exn + real" where
  "table_get t (PStr s) dflt = Inr (case map_of t s of Some v \<Rightarrow> v | None \<Rightarrow> dflt)"
| "table_get t (PList xs) dflt = Inl TypeError"
| "table_get t (PDict kvs) dflt = Inl TypeError"
| "table_get t _ dflt = Inr dflt"

definition CONCRETE_GRADES :: "(string \<times> real) list" where
  "CONCRETE_GRADES =
     [(''M15'', 15), (''M20'', 20), (''M25'', 25), (''M30'', 30), (''M35'', 35), (''M40'', 40),
      (''M45'', 45), (''M50'', 50), (''M55'', 55), (''M60'', 60)]"

definition STEEL_GRADES :: "(string \<times> real) list" where
  "STEEL_GRADES = [(''Fe415'', 415), (''Fe500'', 500), (''Fe550'', 550), (''Fe600'', 600)]"

definition CONCRETE_DENSITY :: real where "CONCRETE_DENSITY = 25.0"
definition LOAD_FACTOR_DEAD :: real where "LOAD_FACTOR_DEAD = 1.5"
definition LOAD_FACTOR_LIVE :: real where "LOAD_FACTOR_LIVE = 1.5"

text \<open>The loop over the point loads of \<open>calculate_design_moment\<close>.\<close>

fun moment_point_loop :: "real \<Rightarrow> (real \<times> real) list \<Rightarrow> real \<Rightarrow> exn + real" where
  "moment_point_loop spn [] moment_point = Inr moment_point"
| "moment_point_loop spn ((P, a) # rest) moment_point =
     ebind (py_div (P * a * (spn - a)) spn) (\<lambda>q.
     moment_point_loop spn rest (moment_point + max moment_point q))"

definition calculate_design_moment :: "real \<Rightarrow> real \<Rightarrow> (real \<times> real) list \<Rightarrow> exn + real" where
  "calculate_design_moment spn udl point_loads =
     (let moment_udl = udl * spn ^ 2 / 8
      in ebind (moment_point_loop spn point_loads 0) (\<lambda>moment_point.
         Inr (moment_udl + moment_point)))"

definition calculate_design_shear :: "real \<Rightarrow> real \<Rightarrow> (real \<times> real) list \<Rightarrow> real" where
  "calculate_design_shear spn udl point_loads =
     (let shear_udl = udl * spn / 2;
          shear_point = fold (\<lambda>(P, a) acc. acc + P / 2) point_loads 0
      in shear_udl + shear_point)"

text \<open>
  \<open>calculate_required_area_of_steel\<close>: the body after the unit guess is
  \<open>required_area_nmm\<close>, which takes the moment in Nmm.
\<close>

definition required_area_nmm :: "real \<Rightarrow> real \<Rightarrow> real \<Rightarrow> real \<Rightarrow> real \<Rightarrow> exn + real" where
  "required_area_nmm moment fck fy b d =
     (let xu_max = 0.48 * d;
          Mu_lim = 0.36 * fck * b * xu_max * (d - 0.42 * xu_max)
      in if moment \<le> Mu_lim
         then ebind (py_div moment (fck * b * d ^ 2)) (\<lambda>k.
              let j = 1 - k / 3
              in py_div moment (0.87 * fy * j * d))
         else py_div moment (0.87 * fy * 0.9 * d))"

definition calculate_required_area_of_steel ::
    "real \<Rightarrow> real \<Rightarrow> real \<Rightarrow> real \<Rightarrow> real \<Rightarrow> exn + real" where
  "calculate_required_area_of_steel moment fck fy b d =
     required_area_nmm (if moment < 1000 then moment * 1000000 else moment) fck fy b d"

definition shear_table :: "real \<Rightarrow> real" where
  "shear_table pt =
     (if pt \<le> 0.15 then 0.28
      else if pt \<le> 0.25 then 0.30
      else if pt \<le> 0.50 then 0.35
      else if pt \<le> 0.75 then 0.39
      else if pt \<le> 1.00 then 0.42
      else if pt \<le> 1.25 then 0.45
      else if pt \<le> 1.50 then 0.48
      else if pt \<le> 1.75 then 0.50
      else if pt \<le> 2.00 then 0.52
      else if pt \<le> 2.25 then 0.54
      else if pt \<le> 2.50 then 0.56
      else if pt \<le> 2.75 then 0.57
      else 0.58)"

definition calculate_shear_capacity :: "real \<Rightarrow> real \<Rightarrow> real \<Rightarrow> real \<Rightarrow> exn + real" where
  "calculate_shear_capacity b d fck Ast =
     ebind (if 0 < Ast then py_div (100 * Ast) (b * d) else Inr 0.15) (\<lambda>pt0.
     let pt = min pt0 3.0
     in ebind (if fck \<le> 20 then Inr (shear_table pt)
               else ebind (py_sqrt (fck / 20)) (\<lambda>s.
                    Inr ((0.28 + (pt - 0.15) * 0.02) * s))) (\<lambda>tau_c.
        Inr (tau_c * b * d)))"

definition calculate_deflection_ratio :: "real \<Rightarrow> string \<Rightarrow> real" where
  "calculate_deflection_ratio spn loading_type =
     (if loading_type = ''cantilever'' then 7
      else if loading_type = ''simply_supported'' then 20
      else if loading_type = ''continuous'' then 26
      else 20)"

definition check_minimum_steel :: "real \<Rightarrow> real \<Rightarrow> real \<Rightarrow> real \<Rightarrow> exn + (bool \<times> real)" where
  "check_minimum_steel Ast_provided b d fy =
     ebind (py_div 0.85 fy) (\<lambda>q.
     let Ast_min = q * b * d
     in Inr (Ast_min \<le> Ast_provided, Ast_min))"

definition check_maximum_steel :: "real \<Rightarrow> real \<Rightarrow> real \<Rightarrow> bool \<times> real" where
  "check_maximum_steel Ast_provided b d =
     (let Ast_max = 0.04 * b * d in (Ast_provided \<le> Ast_max, Ast_max))"

section \<open>Shared result construction\<close>

text \<open>
  \<open>all(check['pass'] for check in checks.values())\<close>: the generator stops at the first
  check whose flag is falsy.
\<close>

fun all_pass :: "(string \<times> pyval) list \<Rightarrow> exn + bool" where
  "all_pass [] = Inr True"
| "all_pass ((name, c) # rest) =
     ebind (subscript c ''pass'') (\<lambda>p. if truthy p then all_pass rest else Inr False)"

definition status_of :: "bool \<Rightarrow> pyval" where
  "status_of overall_pass = PStr (if overall_pass then ''PASS'' else ''FAIL'')"

definition error_result :: "string \<Rightarrow> exn \<Rightarrow> string \<Rightarrow> pyval" where
  "error_result prefix e member = PDict [(''error'', PStr (prefix @ exn_text e)), (''member_type'', PStr member)]"

definition catch_all :: "string \<Rightarrow> string \<Rightarrow> exn + pyval \<Rightarrow> pyval" where
  "catch_all prefix member m = (case m of Inr r \<Rightarrow> r | Inl e \<Rightarrow> error_result prefix e member)"

section \<open>beam_checker.py\<close>

definition beam_checks ::
    "real \<Rightarrow> real \<Rightarrow> real \<Rightarrow> real \<Rightarrow> bool \<Rightarrow> real \<Rightarrow> bool \<Rightarrow> real \<Rightarrow> real \<Rightarrow> real \<Rightarrow> real \<Rightarrow>
     real \<Rightarrow> (string \<times> pyval) list" where
  "beam_checks Ast_required Ast_provided Ast_min Ast_max min_adequate Vu_n max_adequate Vc
       actual_ratio allowable_ratio ld available_length =
     [(''flexural_strength'', PDict
         [(''required_steel'', PFloat (py_round Ast_required 2)),
          (''provided_steel'', PFloat (py_round Ast_provided 2)),
          (''pass'', PBool (Ast_required \<le> Ast_provided)),
          (''description'', PStr ''Flexural reinforcement adequacy'')]),
      (''minimum_steel'', PDict
         [(''minimum_required'', PFloat (py_round Ast_min 2)),
          (''provided_steel'', PFloat (py_round Ast_provided 2)),
          (''pass'', PBool min_adequate),
          (''description'', PStr ''Minimum tension reinforcement (IS 456 Cl. 26.5.1.1)'')]),
      (''maximum_steel'', PDict
         [(''maximum_allowed'', PFloat (py_round Ast_max 2)),
          (''provided_steel'', PFloat (py_round Ast_provided 2)),
          (''pass'', PBool max_adequate),
          (''description'', PStr ''Maximum tension reinforcement (IS 456 Cl. 26.5.1.1)'')]),
      (''shear_strength'', PDict
         [(''design_shear'', PFloat (py_round Vu_n 2)),
          (''shear_capacity'', PFloat (py_round Vc 2)),
          (''pass'', PBool (Vu_n \<le> Vc)),
          (''description'', PStr ''Shear strength without stirrups (IS 456 Cl. 40)'')]),
      (''deflection'', PDict
         [(''actual_span_depth_ratio'', PFloat (py_round actual_ratio 2)),
          (''allowable_span_depth_ratio'', PFloat (py_round allowable_ratio 2)),
          (''pass'', PBool (actual_ratio \<le> allowable_ratio)),
          (''description'', PStr ''Deflection control (IS 456 Cl. 23.2.1)'')]),
      (''development_length'', PDict
         [(''required_length'', PFloat (py_round ld 2)),
          (''available_length'', PFloat (py_round available_length 2)),
          (''pass'', PBool (ld \<le> available_length)),
          (''description'', PStr ''Development length (IS 456 Cl. 26.2.1)'')])]"

text \<open>
  The body of the \<open>try\<close> block of \<open>check_beam_compliance\<close>, statement by statement.
  The stress \<open>fs\<close> the source computes for the modification factor is never used
  (\<open>kt = 1.0\<close>) and its division is guarded, so it is left out.
\<close>

definition check_beam_body :: "pyval \<Rightarrow> exn + pyval" where
  "check_beam_body design_data =
     ebind (subscript design_data ''dimensions'') (\<lambda>dimensions.
     ebind (subscript design_data ''loads'') (\<lambda>loads.
     ebind (subscript design_data ''materials'') (\<lambda>materials.
     ebind (subscript design_data ''reinforcement'') (\<lambda>reinforcement.
     ebind (get_float dimensions ''length'' (PInt 0)) (\<lambda>len.
     let span = len * 1000 in
     ebind (get_float dimensions ''breadth'' (PInt 0)) (\<lambda>width.
     ebind (get_float dimensions ''depth'' (PInt 0)) (\<lambda>depth.
     ebind (get_float reinforcement ''cover'' (PInt 25)) (\<lambda>cover.
     ebind (get_float reinforcement ''bar_diameter'' (PInt 16)) (\<lambda>bar_dia.
     let d = depth - cover - bar_dia / 2 in
     ebind (dict_get materials ''concrete_grade'' (PStr ''M20'')) (\<lambda>concrete_grade.
     ebind (dict_get materials ''steel_grade'' (PStr ''Fe500'')) (\<lambda>steel_grade.
     ebind (table_get CONCRETE_GRADES concrete_grade 20) (\<lambda>fck.
     ebind (table_get STEEL_GRADES steel_grade 500) (\<lambda>fy.
     ebind (get_float loads ''dead_load'' (PInt 0)) (\<lambda>dead_load.
     ebind (get_float loads ''live_load'' (PInt 0)) (\<lambda>live_load.
     let wu = LOAD_FACTOR_DEAD * dead_load + LOAD_FACTOR_LIVE * live_load in
     ebind (calculate_design_moment (span / 1000) wu []) (\<lambda>Mu.
     let Vu = calculate_design_shear (span / 1000) wu [];
         Mu_nmm = Mu * 1000000;
         Vu_n = Vu * 1000 in
     ebind (calculate_required_area_of_steel Mu_nmm fck fy width d) (\<lambda>Ast_required.
     ebind (ebind (dict_get reinforcement ''num_bars'' (PInt 2)) int_of) (\<lambda>num_bars.
     let bar_area = pi * (bar_dia / 2) ^ 2;
         Ast_provided = of_int num_bars * bar_area in
     ebind (check_minimum_steel Ast_provided width d fy) (\<lambda>(min_adequate, Ast_min).
     let (max_adequate, Ast_max) = check_maximum_steel Ast_provided width d in
     ebind (calculate_shear_capacity width d fck Ast_provided) (\<lambda>Vc.
     let basic_ratio = calculate_deflection_ratio span ''simply_supported'' in
     ebind (py_div span d) (\<lambda>actual_ratio.
     let kt = 1.0;
         allowable_ratio = basic_ratio * kt in
     ebind (py_sqrt fck) (\<lambda>sqrt_fck.
     ebind (py_div (bar_dia * fy) (4 * sqrt_fck)) (\<lambda>ld.
     let available_length = span / 2;
         checks = beam_checks Ast_required Ast_provided Ast_min Ast_max min_adequate Vu_n
                    max_adequate Vc actual_ratio allowable_ratio ld available_length in
     ebind (all_pass checks) (\<lambda>overall_pass.
     Inr (PDict
       [(''member_type'', PStr ''beam''),
        (''overall_compliance'', PBool overall_pass),
        (''design_summary'', PDict
           [(''span'', PFloat span),
            (''width'', PFloat width),
            (''depth'', PFloat depth),
            (''effective_depth'', PFloat (py_round d 2)),
            (''design_moment'', PFloat (py_round Mu 2)),
            (''design_shear'', PFloat (py_round Vu 2)),
            (''concrete_grade'', concrete_grade),
            (''steel_grade'', steel_grade)]),
        (''checks'', PDict checks),
        (''status'', status_of overall_pass)])))))))))))))))))))))))))"

definition check_beam_compliance :: "pyval \<Rightarrow> pyval" where
  "check_beam_compliance design_data =
     catch_all ''Beam compliance check failed: '' ''beam'' (check_beam_body design_data)"

section \<open>column_checker.py\<close>

text \<open>
  \<open>max(n, x)\<close> and \<open>min(x, n)\<close> of a float \<open>x\<close> and an integer literal \<open>n\<close>: Python
  returns the first argument unless the second is strictly better, so the result is an
  int exactly when the literal wins.
\<close>

definition max_int_float :: "int \<Rightarrow> real \<Rightarrow> pyval" where
  "max_int_float n x = (if of_int n < x then PFloat x else PInt n)"

definition min_float_int :: "real \<Rightarrow> int \<Rightarrow> pyval" where
  "min_float_int x n = (if of_int n < x then PInt n else PFloat x)"

definition column_checks ::
    "real \<Rightarrow> real \<Rightarrow> real \<Rightarrow> real \<Rightarrow> real \<Rightarrow> real \<Rightarrow> real \<Rightarrow> int \<Rightarrow> int \<Rightarrow> pyval \<Rightarrow> pyval \<Rightarrow>
     (string \<times> pyval) list" where
  "column_checks min_dimension slenderness_ratio Ast_min Ast Ast_max Pu Pu_max
       min_bars num_bars tie_dia tie_spacing =
     [(''minimum_dimension'', PDict
         [(''minimum_dimension'', PFloat min_dimension),
          (''required_minimum'', PInt 200),
          (''pass'', PBool (200 \<le> min_dimension)),
          (''description'', PStr ''Minimum column dimension (IS 456 Cl. 25.1.2)'')]),
      (''slenderness_ratio'', PDict
         [(''slenderness_ratio'', PFloat (py_round slenderness_ratio 2)),
          (''maximum_allowed'', PInt 60),
          (''pass'', PBool (slenderness_ratio \<le> 60)),
          (''description'', PStr ''Slenderness ratio (IS 456 Cl. 25.3)'')]),
      (''minimum_steel'', PDict
         [(''minimum_required'', PFloat (py_round Ast_min 2)),
          (''provided_steel'', PFloat (py_round Ast 2)),
          (''pass'', PBool (Ast_min \<le> Ast)),
          (''description'', PStr ''Minimum longitudinal reinforcement (IS 456 Cl. 26.5.3.1 a)'')]),
      (''maximum_steel'', PDict
         [(''maximum_allowed'', PFloat (py_round Ast_max 2)),
          (''provided_steel'', PFloat (py_round Ast 2)),
          (''pass'', PBool (Ast \<le> Ast_max)),
          (''description'', PStr ''Maximum longitudinal reinforcement (IS 456 Cl. 26.5.3.1 c)'')]),
      (''axial_capacity'', PDict
         [(''design_load'', PFloat (py_round Pu 2)),
          (''capacity'', PFloat (py_round Pu_max 2)),
          (''pass'', PBool (Pu \<le> Pu_max)),
          (''description'', PStr ''Axial load capacity (IS 456 Cl. 39.3)'')]),
      (''minimum_bars'', PDict
         [(''minimum_required'', PInt min_bars),
          (''provided_bars'', PInt num_bars),
          (''pass'', PBool (min_bars \<le> num_bars)),
          (''description'', PStr ''Minimum number of longitudinal bars (IS 456 Cl. 26.5.3.1 d)'')]),
      (''tie_reinforcement'', PDict
         [(''minimum_tie_diameter'', round_num tie_dia 2),
          (''maximum_tie_spacing'', round_num tie_spacing 2),
          (''description'', PStr ''Tie reinforcement requirements (IS 456 Cl. 26.5.3.2)''),
          (''pass'', PBool True)])]"

text \<open>
  The body of the \<open>try\<close> block of \<open>check_column_compliance\<close>. The factored moment
  \<open>Mu\<close> is computed by the source and never used.
\<close>

definition check_column_body :: "pyval \<Rightarrow> exn + pyval" where
  "check_column_body design_data =
     ebind (subscript design_data ''dimensions'') (\<lambda>dimensions.
     ebind (subscript design_data ''loads'') (\<lambda>loads.
     ebind (subscript design_data ''materials'') (\<lambda>materials.
     ebind (subscript design_data ''reinforcement'') (\<lambda>reinforcement.
     ebind (get_float dimensions ''breadth'' (PInt 0)) (\<lambda>width.
     ebind (get_float dimensions ''depth'' (PInt 0)) (\<lambda>depth.
     ebind (get_float dimensions ''length'' (PInt 0)) (\<lambda>len.
     let height = len * 1000 in
     ebind (get_float reinforcement ''cover'' (PInt 40)) (\<lambda>cover.
     ebind (dict_get materials ''concrete_grade'' (PStr ''M20'')) (\<lambda>concrete_grade.
     ebind (dict_get materials ''steel_grade'' (PStr ''Fe500'')) (\<lambda>steel_grade.
     ebind (table_get CONCRETE_GRADES concrete_grade 20) (\<lambda>fck.
     ebind (table_get STEEL_GRADES steel_grade 500) (\<lambda>fy.
     ebind (get_float loads ''axial_load'' (PInt 0)) (\<lambda>axial_load.
     ebind (get_float loads ''moment'' (PInt 0)) (\<lambda>moment.
     let Pu = LOAD_FACTOR_DEAD * axial_load;
         Ag = width * depth in
     ebind (get_float reinforcement ''bar_diameter'' (PInt 16)) (\<lambda>bar_dia.
     ebind (ebind (dict_get reinforcement ''num_bars'' (PInt 8)) int_of) (\<lambda>num_bars.
     let bar_area = pi * (bar_dia / 2) ^ 2;
         Ast = of_int num_bars * bar_area;
         min_dimension = min width depth;
         effective_length = height;
         least_radius = min width depth / (2 * sqrt 3) in
     ebind (py_div effective_length least_radius) (\<lambda>slenderness_ratio.
     let Ast_min = 0.008 * Ag;
         Ast_max = 0.04 * Ag;
         Pu_max = (0.4 * fck * (Ag - Ast) + 0.67 * fy * Ast) / 1000;
         min_bars = (if min width depth \<le> 200 then 4 else 6);
         tie_dia = max_int_float 6 (bar_dia / 4);
         least_dimension = min width depth;
         tie_spacing = min_float_int (min least_dimension (16 * bar_dia)) 300;
         checks = column_checks min_dimension slenderness_ratio Ast_min Ast Ast_max Pu Pu_max
                    min_bars num_bars tie_dia tie_spacing in
     ebind (all_pass checks) (\<lambda>overall_pass.
     ebind (py_div (100 * Ast) Ag) (\<lambda>steel_percentage.
     Inr (PDict
       [(''member_type'', PStr ''column''),
        (''overall_compliance'', PBool overall_pass),
        (''design_summary'', PDict
           [(''width'', PFloat width),
            (''depth'', PFloat depth),
            (''height'', PFloat height),
            (''gross_area'', PFloat (py_round Ag 2)),
            (''steel_percentage'', PFloat (py_round steel_percentage 2)),
            (''design_axial_load'', PFloat (py_round Pu 2)),
            (''concrete_grade'', concrete_grade),
            (''steel_grade'', steel_grade)]),
        (''checks'', PDict checks),
        (''status'', status_of overall_pass)]))))))))))))))))))))"

definition check_column_compliance :: "pyval \<Rightarrow> pyval" where
  "check_column_compliance design_data =
     catch_all ''Column compliance check failed: '' ''column'' (check_column_body design_data)"

section \<open>slab_checker.py\<close>

text \<open>
  The required steel of the slab and footing checkers: \<open>k = Mu/(fck b d^2)\<close>, then the
  singly reinforced formula for \<open>k \<le> 0.138\<close> and the simplified one above it.
\<close>

definition strip_required_steel :: "real \<Rightarrow> real \<Rightarrow> real \<Rightarrow> real \<Rightarrow> real \<Rightarrow> exn + real" where
  "strip_required_steel Mu_nmm fck fy b d =
     ebind (py_div Mu_nmm (fck * b * d ^ 2)) (\<lambda>k.
     if k \<le> 0.138
     then (let j = 1 - k / 3 in py_div Mu_nmm (0.87 * fy * j * d))
     else py_div Mu_nmm (0.87 * fy * 0.9 * d))"

definition slab_checks ::
    "real \<Rightarrow> real \<Rightarrow> real \<Rightarrow> real \<Rightarrow> real \<Rightarrow> real \<Rightarrow> real \<Rightarrow> real \<Rightarrow> (string \<times> pyval) list" where
  "slab_checks min_thickness_required thickness Ast_required Ast_provided Ast_min spacing
       tau_v tau_c_max =
     [(''minimum_thickness'', PDict
         [(''minimum_required'', PFloat (py_round min_thickness_required 2)),
          (''provided_thickness'', PFloat thickness),
          (''pass'', PBool (min_thickness_required \<le> thickness)),
          (''description'', PStr ''Minimum thickness for deflection control (IS 456 Cl. 23.2.1)'')]),
      (''flexural_strength'', PDict
         [(''required_steel'', PFloat (py_round Ast_required 2)),
          (''provided_steel'', PFloat (py_round Ast_provided 2)),
          (''pass'', PBool (Ast_required \<le> Ast_provided)),
          (''description'', PStr ''Flexural reinforcement adequacy'')]),
      (''minimum_steel'', PDict
         [(''minimum_required'', PFloat (py_round Ast_min 2)),
          (''provided_steel'', PFloat (py_round Ast_provided 2)),
          (''pass'', PBool (Ast_min \<le> Ast_provided)),
          (''description'', PStr ''Minimum reinforcement (IS 456 Cl. 26.5.2.1)'')]),
      (''maximum_spacing'', PDict
         [(''maximum_allowed'', min_float_int (3 * thickness) 300),
          (''provided_spacing'', PFloat spacing),
          (''pass'', PBool (spacing \<le> min (3 * thickness) 300)),
          (''description'', PStr ''Maximum spacing of reinforcement (IS 456 Cl. 26.3.3)'')]),
      (''shear_strength'', PDict
         [(''design_shear_stress'', PFloat (py_round tau_v 3)),
          (''maximum_allowable'', PFloat (py_round tau_c_max 3)),
          (''pass'', PBool (tau_v \<le> tau_c_max)),
          (''description'', PStr ''Shear strength (IS 456 Cl. 40.2.1)'')])]"

definition distribution_check :: "real \<Rightarrow> real \<Rightarrow> string \<times> pyval" where
  "distribution_check Ast_dist_min Ast_dist_provided =
     (''distribution_steel'', PDict
         [(''minimum_required'', PFloat (py_round Ast_dist_min 2)),
          (''provided_steel'', PFloat (py_round Ast_dist_provided 2)),
          (''pass'', PBool (Ast_dist_min \<le> Ast_dist_provided)),
          (''description'', PStr ''Distribution reinforcement (IS 456 Cl. 26.5.2.1)'')])"

text \<open>Check 6 of the slab checker, made for one-way slabs only.\<close>

definition add_distribution_check ::
    "string \<Rightarrow> pyval \<Rightarrow> real \<Rightarrow> real \<Rightarrow> (string \<times> pyval) list \<Rightarrow> exn + (string \<times> pyval) list" where
  "add_distribution_check slab_type reinforcement thickness bar_area checks =
     (if slab_type = ''one_way''
      then (let Ast_dist_min = 0.12 * thickness * 1000 / 100 in
            ebind (get_float reinforcement ''distribution_spacing'' (PInt 200)) (\<lambda>dist_spacing.
            ebind (py_div (1000 * bar_area) dist_spacing) (\<lambda>Ast_dist_provided.
            Inr (checks @ [distribution_check Ast_dist_min Ast_dist_provided]))))
      else Inr checks)"

text \<open>
  The body of the \<open>try\<close> block of \<open>check_slab_compliance\<close>. The steel percentage
  \<open>pt\<close> of the shear check is computed by the source and never used; its division has
  the divisor of \<open>tau_v\<close> and is kept in the chain.
\<close>

definition check_slab_body :: "pyval \<Rightarrow> exn + pyval" where
  "check_slab_body design_data =
     ebind (subscript design_data ''dimensions'') (\<lambda>dimensions.
     ebind (subscript design_data ''loads'') (\<lambda>loads.
     ebind (subscript design_data ''materials'') (\<lambda>materials.
     ebind (subscript design_data ''reinforcement'') (\<lambda>reinforcement.
     ebind (get_float dimensions ''length'' (PInt 0)) (\<lambda>len.
     let length = len * 1000 in
     ebind (get_float dimensions ''breadth'' (PInt 0)) (\<lambda>br.
     let breadth = br * 1000 in
     ebind (get_float dimensions ''depth'' (PInt 0)) (\<lambda>thickness.
     ebind (get_float reinforcement ''cover'' (PInt 20)) (\<lambda>cover.
     ebind (get_float reinforcement ''bar_diameter'' (PInt 10)) (\<lambda>bar_dia.
     let d = thickness - cover - bar_dia / 2 in
     ebind (dict_get materials ''concrete_grade'' (PStr ''M20'')) (\<lambda>concrete_grade.
     ebind (dict_get materials ''steel_grade'' (PStr ''Fe500'')) (\<lambda>steel_grade.
     ebind (table_get CONCRETE_GRADES concrete_grade 20) (\<lambda>fck.
     ebind (table_get STEEL_GRADES steel_grade 500) (\<lambda>fy.
     ebind (get_float loads ''dead_load'' (PInt 0)) (\<lambda>dead_load.
     ebind (get_float loads ''live_load'' (PInt 0)) (\<lambda>live_load.
     let self_weight = thickness / 1000 * CONCRETE_DENSITY;
         total_dead_load = dead_load + self_weight;
         wu = LOAD_FACTOR_DEAD * total_dead_load + LOAD_FACTOR_LIVE * live_load in
     ebind (py_div (max length breadth) (min length breadth)) (\<lambda>aspect_ratio.
     let slab_type = (if 2.0 \<le> aspect_ratio then ''one_way'' else ''two_way'');
         shorter_span = min length breadth / 1000;
         Mu = (if slab_type = ''one_way'' then wu * shorter_span ^ 2 / 8
               else 0.087 * wu * shorter_span ^ 2);
         Mu_nmm = Mu * 1000000 / 1000;
         b = 1000 in
     ebind (strip_required_steel Mu_nmm fck fy b d) (\<lambda>Ast_required.
     ebind (get_float reinforcement ''spacing'' (PInt 150)) (\<lambda>spacing.
     let bar_area = pi * (bar_dia / 2) ^ 2 in
     ebind (py_div (1000 * bar_area) spacing) (\<lambda>Ast_provided.
     let min_thickness_required = shorter_span * 1000 / 20;
         Ast_min = 0.12 * thickness * 1000 / 100;
         Vu = wu * shorter_span / 2 * 1000 in
     ebind (py_div Vu (b * d)) (\<lambda>tau_v.
     ebind (py_div (100 * Ast_provided) (b * d)) (\<lambda>pt.
     ebind (py_sqrt fck) (\<lambda>sqrt_fck.
     let tau_c_max = 0.25 * sqrt_fck;
         checks5 = slab_checks min_thickness_required thickness Ast_required Ast_provided
                     Ast_min spacing tau_v tau_c_max in
     ebind (add_distribution_check slab_type reinforcement thickness bar_area checks5) (\<lambda>checks.
     ebind (all_pass checks) (\<lambda>overall_pass.
     Inr (PDict
       [(''member_type'', PStr ''slab''),
        (''overall_compliance'', PBool overall_pass),
        (''design_summary'', PDict
           [(''length'', PFloat length),
            (''breadth'', PFloat breadth),
            (''thickness'', PFloat thickness),
            (''effective_depth'', PFloat (py_round d 2)),
            (''slab_type'', PStr slab_type),
            (''aspect_ratio'', PFloat (py_round aspect_ratio 2)),
            (''design_moment'', PFloat (py_round Mu 2)),
            (''factored_load'', PFloat (py_round wu 2)),
            (''concrete_grade'', concrete_grade),
            (''steel_grade'', steel_grade)]),
        (''checks'', PDict checks),
        (''status'', status_of overall_pass)])))))))))))))))))))))))))"

definition check_slab_compliance :: "pyval \<Rightarrow> pyval" where
  "check_slab_compliance design_data =
     catch_all ''Slab compliance check failed: '' ''slab'' (check_slab_body design_data)"

section \<open>footing_checker.py\<close>

definition footing_checks ::
    "real \<Rightarrow> real \<Rightarrow> real \<Rightarrow> real \<Rightarrow> real \<Rightarrow> real \<Rightarrow> real \<Rightarrow> real \<Rightarrow> string \<times> pyval \<Rightarrow>
     real \<Rightarrow> real \<Rightarrow> (string \<times> pyval) list" where
  "footing_checks bearing_pressure sbc quarter_cantilever thickness Ast_required Ast_provided Ast_min
       spacing one_way_shear tau_v_punch tau_c_punch =
     [(''bearing_pressure'', PDict
         [(''bearing_pressure'', PFloat (py_round bearing_pressure 2)),
          (''safe_bearing_capacity'', PFloat sbc),
          (''pass'', PBool (bearing_pressure \<le> sbc)),
          (''description'', PStr ''Soil bearing pressure check'')]),
      (''minimum_thickness'', PDict
         [(''minimum_required'', round_num (max_int_float 150 quarter_cantilever) 2),
          (''provided_thickness'', PFloat thickness),
          (''pass'', PBool (max 150 quarter_cantilever \<le> thickness)),
          (''description'', PStr ''Minimum thickness requirement'')]),
      (''flexural_strength'', PDict
         [(''required_steel'', PFloat (py_round Ast_required 2)),
          (''provided_steel'', PFloat (py_round Ast_provided 2)),
          (''pass'', PBool (Ast_required \<le> Ast_provided)),
          (''description'', PStr ''Flexural reinforcement adequacy'')]),
      (''minimum_steel'', PDict
         [(''minimum_required'', PFloat (py_round Ast_min 2)),
          (''provided_steel'', PFloat (py_round Ast_provided 2)),
          (''pass'', PBool (Ast_min \<le> Ast_provided)),
          (''description'', PStr ''Minimum reinforcement (IS 456 Cl. 26.5.2.1)'')]),
      (''maximum_spacing'', PDict
         [(''maximum_allowed'', min_float_int (3 * thickness) 450),
          (''provided_spacing'', PFloat spacing),
          (''pass'', PBool (spacing \<le> min (3 * thickness) 450)),
          (''description'', PStr ''Maximum spacing of reinforcement'')]),
      one_way_shear,
      (''punching_shear'', PDict
         [(''punching_shear_stress'', PFloat (py_round tau_v_punch 3)),
          (''allowable_punching_stress'', PFloat (py_round tau_c_punch 3)),
          (''pass'', PBool (tau_v_punch \<le> tau_c_punch)),
          (''description'', PStr ''Two-way shear (punching) strength (IS 456 Cl. 31.6)'')])]"

text \<open>Check 6 of the footing checker: a forced pass when the shear span is not positive.\<close>

definition one_way_shear_check ::
    "real \<Rightarrow> real \<Rightarrow> real \<Rightarrow> real \<Rightarrow> real \<Rightarrow> real \<Rightarrow> real \<Rightarrow> exn + (string \<times> pyval)" where
  "one_way_shear_check shear_span net_pressure shorter_side b d Ast_provided fck =
     (if 0 < shear_span
      then (let Vu = net_pressure * shorter_side / 1000 * shear_span * 1000 in
            ebind (py_div Vu (b * d)) (\<lambda>tau_v.
            ebind (py_div (100 * Ast_provided) (b * d)) (\<lambda>pt.
            ebind (py_sqrt fck) (\<lambda>sqrt_fck.
            let tau_c = 0.36 * sqrt_fck in
            Inr (''one_way_shear'', PDict
                   [(''design_shear_stress'', PFloat (py_round tau_v 3)),
                    (''allowable_shear_stress'', PFloat (py_round tau_c 3)),
                    (''pass'', PBool (tau_v \<le> tau_c)),
                    (''description'', PStr ''One-way shear strength (IS 456 Cl. 40)'')])))))
      else Inr (''one_way_shear'', PDict
                   [(''design_shear_stress'', PInt 0),
                    (''allowable_shear_stress'', PInt 0),
                    (''pass'', PBool True),
                    (''description'', PStr ''One-way shear - Not critical'')]))"

text \<open>
  The body of the \<open>try\<close> block of \<open>check_footing_compliance\<close>. The moment read from
  the loads and the steel percentage of the one-way shear check are never used; their
  conversions and divisions can still raise and are kept in the chain.
\<close>

definition check_footing_body :: "pyval \<Rightarrow> exn + pyval" where
  "check_footing_body design_data =
     ebind (subscript design_data ''dimensions'') (\<lambda>dimensions.
     ebind (subscript design_data ''loads'') (\<lambda>loads.
     ebind (subscript design_data ''materials'') (\<lambda>materials.
     ebind (subscript design_data ''reinforcement'') (\<lambda>reinforcement.
     ebind (get_float dimensions ''length'' (PInt 0)) (\<lambda>len.
     let length = len * 1000 in
     ebind (get_float dimensions ''breadth'' (PInt 0)) (\<lambda>br.
     let breadth = br * 1000 in
     ebind (get_float dimensions ''depth'' (PInt 0)) (\<lambda>thickness.
     ebind (get_float reinforcement ''cover'' (PInt 50)) (\<lambda>cover.
     ebind (get_float dimensions ''column_size'' (PInt 300)) (\<lambda>column_size.
     ebind (get_float reinforcement ''bar_diameter'' (PInt 16)) (\<lambda>bar_dia.
     let d = thickness - cover - bar_dia / 2 in
     ebind (dict_get materials ''concrete_grade'' (PStr ''M20'')) (\<lambda>concrete_grade.
     ebind (dict_get materials ''steel_grade'' (PStr ''Fe500'')) (\<lambda>steel_grade.
     ebind (table_get CONCRETE_GRADES concrete_grade 20) (\<lambda>fck.
     ebind (table_get STEEL_GRADES steel_grade 500) (\<lambda>fy.
     ebind (get_float loads ''axial_load'' (PInt 0)) (\<lambda>axial_load.
     ebind (get_float loads ''moment'' (PInt 0)) (\<lambda>moment.
     ebind (get_float loads ''safe_bearing_capacity'' (PInt 200)) (\<lambda>sbc.
     let footing_area = length * breadth / 1000000;
         self_weight = footing_area * thickness / 1000 * CONCRETE_DENSITY;
         total_load = axial_load + self_weight in
     ebind (py_div total_load footing_area) (\<lambda>bearing_pressure.
     ebind (py_div self_weight footing_area) (\<lambda>self_pressure.
     let net_pressure = bearing_pressure - self_pressure;
         cantilever_length = (max length breadth - column_size) / 2 / 1000;
         moment_x = (if breadth \<le> length
                     then net_pressure * breadth / 1000 * cantilever_length ^ 2 / 2
                     else net_pressure * length / 1000 * cantilever_length ^ 2 / 2);
         moment_y = (if breadth \<le> length
                     then net_pressure * length / 1000 * cantilever_length ^ 2 / 2
                     else net_pressure * breadth / 1000 * cantilever_length ^ 2 / 2);
         critical_moment = max moment_x moment_y in
     ebind (py_div (critical_moment * 1000000) (min length breadth)) (\<lambda>Mu_nmm.
     let b = min length breadth in
     ebind (strip_required_steel Mu_nmm fck fy b d) (\<lambda>Ast_required.
     ebind (get_float reinforcement ''spacing'' (PInt 150)) (\<lambda>spacing.
     let bar_area = pi * (bar_dia / 2) ^ 2 in
     ebind (ebind (py_div b spacing) (\<lambda>q. int_of (PFloat q))) (\<lambda>bars.
     let num_bars = bars + 1;
         Ast_provided = of_int num_bars * bar_area;
         quarter_cantilever = cantilever_length * 1000 / 4;
         Ast_min = 0.12 * thickness * b / 100;
         shear_span = cantilever_length - d / 1000 in
     ebind (one_way_shear_check shear_span net_pressure (min length breadth) b d Ast_provided fck)
       (\<lambda>one_way_shear.
     let critical_perimeter = 4 * (column_size + d);
         punching_area = (column_size + d) ^ 2;
         punching_force = axial_load * 1000 - net_pressure * punching_area / 1000000 * 1000 in
     ebind (py_div punching_force (critical_perimeter * d)) (\<lambda>tau_v_punch.
     ebind (py_sqrt fck) (\<lambda>sqrt_fck.
     let tau_c_punch = 0.25 * sqrt_fck;
         checks = footing_checks bearing_pressure sbc quarter_cantilever thickness Ast_required
                    Ast_provided Ast_min spacing one_way_shear tau_v_punch tau_c_punch in
     ebind (all_pass checks) (\<lambda>overall_pass.
     Inr (PDict
       [(''member_type'', PStr ''footing''),
        (''overall_compliance'', PBool overall_pass),
        (''design_summary'', PDict
           [(''length'', PFloat length),
            (''breadth'', PFloat breadth),
            (''thickness'', PFloat thickness),
            (''effective_depth'', PFloat (py_round d 2)),
            (''footing_area'', PFloat (py_round footing_area 2)),
            (''bearing_pressure'', PFloat (py_round bearing_pressure 2)),
            (''critical_moment'', PFloat (py_round critical_moment 2)),
            (''concrete_grade'', concrete_grade),
            (''steel_grade'', steel_grade)]),
        (''checks'', PDict checks),
        (''status'', status_of overall_pass)]))))))))))))))))))))))))))))"

definition check_footing_compliance :: "pyval \<Rightarrow> pyval" where
  "check_footing_compliance design_data =
     catch_all ''Footing compliance check failed: '' ''footing'' (check_footing_body design_data)"

section \<open>load_calculator.py\<close>

text \<open>
  The building and wind parameters are used in arithmetic as they come, without
  \<open>float()\<close>: \<open>num_of\<close> is a value as an operand of float arithmetic (an int, a float
  or a bool; anything else ends in a TypeError). Numbers the calculator computes are
  written \<open>PFloat\<close>, also where Python would keep an int.
\<close>

fun num_of :: "pyval \<Rightarrow> exn + real" where
  "num_of (PFloat r) = Inr r"
| "num_of (PInt i) = Inr (of_int i)"
| "num_of (PBool b) = Inr (if b then 1 else 0)"
| "num_of _ = Inl TypeError"

definition num_eq :: "pyval \<Rightarrow> real \<Rightarrow> bool" where
  "num_eq v k = (case num_of v of Inr r \<Rightarrow> r = k | Inl e \<Rightarrow> False)"

fun dict_set :: "pyval \<Rightarrow> string \<Rightarrow> pyval \<Rightarrow> exn + pyval" where
  "dict_set (PDict kvs) k v = Inr (PDict (AList.update k v kvs))"
| "dict_set _ k v = Inl TypeError"

fun py_setdefault :: "pyval \<Rightarrow> string \<Rightarrow> pyval \<Rightarrow> exn + pyval" where
  "py_setdefault (PDict kvs) k v =
     Inr (PDict (case map_of kvs k of Some old \<Rightarrow> kvs | None \<Rightarrow> kvs @ [(k, v)]))"
| "py_setdefault _ k v = Inl AttributeError"

fun setdefaults :: "pyval \<Rightarrow> (string \<times> pyval) list \<Rightarrow> exn + pyval" where
  "setdefaults d [] = Inr d"
| "setdefaults d ((k, v) # rest) = ebind (py_setdefault d k v) (\<lambda>d'. setdefaults d' rest)"

fun has_key :: "pyval \<Rightarrow> string \<Rightarrow> bool" where
  "has_key (PDict kvs) k = (k \<in> set (map fst kvs))"
| "has_key _ k = False"

definition MATERIAL_DENSITIES :: "(string \<times> real) list" where
  "MATERIAL_DENSITIES =
     [(''concrete'', 25.0), (''brick_masonry'', 19.0), (''stone_masonry'', 24.0), (''steel'', 78.5),
      (''timber'', 6.0), (''plaster'', 20.0), (''flooring'', 23.0), (''waterproofing'', 1.5)]"

definition LIVE_LOADS :: "(string \<times> real) list" where
  "LIVE_LOADS =
     [(''residential'', 2.0), (''office'', 3.0), (''retail'', 4.0), (''industrial'', 5.0),
      (''warehouse'', 7.5), (''parking'', 2.5), (''corridor'', 3.0), (''stairs'', 3.0),
      (''terrace'', 1.5), (''roof'', 0.75)]"

definition WIND_SPEEDS :: "(string \<times> real) list" where
  "WIND_SPEEDS =
     [(''zone_1'', 39), (''zone_2'', 44), (''zone_3'', 47), (''zone_4'', 50), (''zone_5'', 55),
      (''zone_6'', 60)]"

text \<open>The unit text \<open>kN/m2\<close> with a superscript two, as its UTF-8 bytes.\<close>

definition kN_per_m2 :: string where
  "kN_per_m2 = ''kN/m'' @ [CHR 0xC2, CHR 0xB2]"

definition calculate_self_weight :: "string \<Rightarrow> pyval \<Rightarrow> pyval \<Rightarrow> exn + pyval" where
  "calculate_self_weight member_type dimensions material =
     ebind (get_float dimensions ''length'' (PInt 0)) (\<lambda>len.
     let length = len / 1000 in
     ebind (get_float dimensions ''breadth'' (PInt 0)) (\<lambda>br.
     let breadth = br / 1000 in
     ebind (get_float dimensions ''depth'' (PInt 0)) (\<lambda>dp.
     let depth = dp / 1000 in
     ebind (table_get MATERIAL_DENSITIES material 25.0) (\<lambda>density.
     if member_type = ''beam'' then
       (let volume = breadth * depth * length;
            self_weight = volume * density in
        ebind (py_div self_weight length) (\<lambda>udl.
        Inr (PDict [(''volume'', PFloat volume), (''total_self_weight'', PFloat self_weight),
                    (''udl_self_weight'', PFloat udl), (''unit'', PStr ''kN/m'')])))
     else if member_type = ''column'' then
       (let volume = breadth * depth * length;
            self_weight = volume * density in
        Inr (PDict [(''volume'', PFloat volume), (''total_self_weight'', PFloat self_weight),
                    (''unit'', PStr ''kN'')]))
     else if member_type = ''slab'' then
       (let area = length * breadth;
            volume = area * depth;
            self_weight = volume * density;
            self_weight_per_area = density * depth in
        Inr (PDict [(''area'', PFloat area), (''volume'', PFloat volume),
                    (''total_self_weight'', PFloat self_weight),
                    (''self_weight_per_area'', PFloat self_weight_per_area),
                    (''unit'', PStr kN_per_m2)]))
     else if member_type = ''footing'' then
       (let volume = length * breadth * depth;
            self_weight = volume * density in
        Inr (PDict [(''volume'', PFloat volume), (''total_self_weight'', PFloat self_weight),
                    (''unit'', PStr ''kN'')]))
     else Inr PNone))))"

definition calculate_superimposed_dead_load ::
    "string \<Rightarrow> pyval \<Rightarrow> bool \<Rightarrow> bool \<Rightarrow> (string \<times> pyval) list" where
  "calculate_superimposed_dead_load member_type building_use include_partition include_finishes =
     (if member_type = ''beam'' \<or> member_type = ''slab'' then
        (let finishes = (if include_finishes
                         then [(''floor_finish'', 1.0), (''ceiling_finish'', 0.5), (''waterproofing'', 0.3)]
                         else []);
             partition = (if include_partition
                          then [(''partition_walls'',
                                 if building_use = PStr ''residential'' \<or> building_use = PStr ''office'' then 1.0
                                 else if building_use = PStr ''retail'' \<or> building_use = PStr ''industrial'' then 1.5
                                 else 1.0)]
                          else []);
             loads = finishes @ partition @ [(''mep_services'', 0.5)];
             total_sidl = sum_list (map snd loads)
         in map (\<lambda>(k, v). (k, PFloat v)) loads @
            [(''total_sidl'', PFloat total_sidl), (''unit'', PStr kN_per_m2)])
      else [])"

definition calculate_live_load :: "string \<Rightarrow> pyval \<Rightarrow> exn + pyval" where
  "calculate_live_load member_type building_use =
     ebind (table_get LIVE_LOADS building_use 2.0) (\<lambda>base_live_load.
     if member_type = ''beam'' then
       Inr (PDict [(''live_load'', PFloat base_live_load), (''unit'', PStr kN_per_m2),
                   (''note'', PStr ''Apply to tributary area'')])
     else if member_type = ''column'' then
       Inr (PDict [(''live_load_per_floor'', PFloat base_live_load), (''unit'', PStr kN_per_m2),
                   (''note'', PStr ''Multiply by tributary area and number of floors'')])
     else if member_type = ''slab'' then
       Inr (PDict [(''live_load'', PFloat base_live_load), (''unit'', PStr kN_per_m2)])
     else if member_type = ''footing'' then
       Inr (PDict [(''live_load'', PFloat base_live_load), (''unit'', PStr kN_per_m2),
                   (''note'', PStr ''From superstructure'')])
     else Inr PNone)"

text \<open>
  \<open>calculate_wind_load\<close>: the height is a number here (its callers pass a float or a
  product that raises the same TypeError on anything else); the power is only taken of
  a base above 1.
\<close>

definition calculate_wind_load :: "real \<Rightarrow> pyval \<Rightarrow> pyval \<Rightarrow> real \<Rightarrow> exn + pyval" where
  "calculate_wind_load height wind_zone terrain_category importance_factor =
     ebind (table_get WIND_SPEEDS wind_zone 44) (\<lambda>vb.
     let base = (if num_eq terrain_category 1 then 1.05
                 else if num_eq terrain_category 2 then 1.00
                 else if num_eq terrain_category 3 then 0.91
                 else 0.80);
         k2 = (if height \<le> 10 then base else base * (height / 10) powr 0.15);
         k3 = 1.0;
         vz = vb * k2 * k3;
         pz = 0.6 * vz ^ 2 / 1000;
         design_wind_pressure = pz * importance_factor
     in Inr (PDict
          [(''basic_wind_speed'', PFloat vb),
           (''terrain_height_factor'', PFloat k2),
           (''topography_factor'', PFloat k3),
           (''design_wind_speed'', PFloat vz),
           (''wind_pressure'', PFloat design_wind_pressure),
           (''unit'', PStr kN_per_m2),
           (''height'', PFloat height),
           (''zone'', wind_zone)]))"

definition get_num :: "pyval \<Rightarrow> string \<Rightarrow> exn + real" where
  "get_num d k = ebind (subscript d k) num_of"

definition calculate_column_axial_load :: "pyval \<Rightarrow> exn + pyval" where
  "calculate_column_axial_load column_data =
     ebind (dict_get column_data ''dimensions'' (PDict [])) (\<lambda>dimensions.
     ebind (dict_get column_data ''building_data'' (PDict [])) (\<lambda>building_data.
     ebind (dict_get column_data ''wind_data'' (PDict [])) (\<lambda>wind_data.
     ebind (calculate_self_weight ''column'' dimensions (PStr ''concrete'')) (\<lambda>self_weight.
     ebind (dict_get building_data ''num_floors'' (PInt 1)) (\<lambda>num_floors.
     ebind (dict_get building_data ''tributary_area'' (PFloat 20.0)) (\<lambda>floor_area_per_column.
     ebind (dict_get building_data ''building_use'' (PStr ''residential'')) (\<lambda>building_use.
     ebind (dict_get building_data ''floor_height'' (PFloat 3.0)) (\<lambda>floor_height.
     ebind (dict_get building_data ''slab_thickness'' (PInt 150)) (\<lambda>slab_thickness.
     ebind (num_of slab_thickness) (\<lambda>slab_thickness_n.
     let slab_self_weight = 25.0 * (slab_thickness_n / 1000);
         sidl = PDict (calculate_superimposed_dead_load ''slab'' building_use True True) in
     ebind (ebind (dict_get sidl ''total_sidl'' (PFloat 2.0)) num_of) (\<lambda>total_sidl.
     ebind (calculate_live_load ''slab'' building_use) (\<lambda>live_load_data.
     ebind (ebind (dict_get live_load_data ''live_load'' (PFloat 2.0)) num_of) (\<lambda>live_load_per_floor.
     ebind (num_of floor_area_per_column) (\<lambda>area.
     let dead_load_per_floor = (slab_self_weight + total_sidl) * area;
         live_load_per_floor_total = live_load_per_floor * area in
     ebind (get_num self_weight ''total_self_weight'') (\<lambda>column_self_weight.
     ebind (num_of num_floors) (\<lambda>floors.
     let total_dead_load = column_self_weight + dead_load_per_floor * floors;
         total_live_load = live_load_per_floor_total * floors in
     ebind (get_float dimensions ''length'' (PInt 3000)) (\<lambda>len.
     let total_height = len / 1000 in
     ebind (if truthy wind_data
            then ebind (dict_get wind_data ''wind_zone'' (PStr ''zone_2'')) (\<lambda>wind_zone.
                 ebind (dict_get wind_data ''terrain_category'' (PInt 2)) (\<lambda>terrain_category.
                 ebind (calculate_wind_load total_height wind_zone terrain_category 1.0) (\<lambda>wind_load_data.
                 ebind (get_num wind_load_data ''wind_pressure'') (\<lambda>wind_pressure.
                 ebind (ebind (dict_get building_data ''wind_area_per_column'' (PFloat 15.0)) num_of)
                   (\<lambda>wind_area_per_column.
                 Inr (wind_pressure * wind_area_per_column, wind_pressure))))))
            else Inr (0, 0)) (\<lambda>(total_wind_load, wind_pressure).
     let combination_1 = 1.5 * (total_dead_load + total_live_load);
         combination_2 = 1.2 * (total_dead_load + total_live_load + total_wind_load);
         combination_3 = 1.5 * (total_dead_load + 0.25 * total_live_load + total_wind_load);
         critical_load = max (max combination_1 combination_2) combination_3
     in Inr (PDict
          [(''column_self_weight'', PFloat column_self_weight),
           (''dead_load_from_floors'', PFloat (dead_load_per_floor * floors)),
           (''total_dead_load'', PFloat total_dead_load),
           (''total_live_load'', PFloat total_live_load),
           (''total_wind_load'', PFloat total_wind_load),
           (''load_combination_1'', PFloat combination_1),
           (''load_combination_2'', PFloat combination_2),
           (''load_combination_3'', PFloat combination_3),
           (''critical_axial_load'', PFloat critical_load),
           (''wind_pressure'', PFloat wind_pressure),
           (''num_floors'', num_floors),
           (''tributary_area'', floor_area_per_column),
           (''unit'', PStr ''kN'')])))))))))))))))))))"

definition calculate_beam_loads :: "pyval \<Rightarrow> exn + pyval" where
  "calculate_beam_loads beam_data =
     ebind (dict_get beam_data ''dimensions'' (PDict [])) (\<lambda>dimensions.
     ebind (dict_get beam_data ''loading_data'' (PDict [])) (\<lambda>loading_data.
     ebind (calculate_self_weight ''beam'' dimensions (PStr ''concrete'')) (\<lambda>self_weight.
     ebind (get_num self_weight ''udl_self_weight'') (\<lambda>beam_udl.
     ebind (dict_get loading_data ''tributary_width'' (PFloat 3.0)) (\<lambda>tributary_width.
     ebind (dict_get loading_data ''slab_thickness'' (PInt 150)) (\<lambda>slab_thickness.
     ebind (dict_get loading_data ''building_use'' (PStr ''residential'')) (\<lambda>building_use.
     ebind (num_of slab_thickness) (\<lambda>slab_thickness_n.
     let slab_self_weight = 25.0 * (slab_thickness_n / 1000);
         sidl = PDict (calculate_superimposed_dead_load ''slab'' building_use True True) in
     ebind (ebind (dict_get sidl ''total_sidl'' (PFloat 2.0)) num_of) (\<lambda>total_sidl.
     ebind (num_of tributary_width) (\<lambda>width_n.
     let total_slab_dead_load = (slab_self_weight + total_sidl) * width_n in
     ebind (calculate_live_load ''slab'' building_use) (\<lambda>live_load_data.
     ebind (ebind (dict_get live_load_data ''live_load'' (PFloat 2.0)) num_of) (\<lambda>live_load.
     let slab_live_load = live_load * width_n in
     ebind (dict_get loading_data ''wall_load'' (PInt 0)) (\<lambda>wall_load.
     ebind (num_of wall_load) (\<lambda>wall_load_n.
     let total_dead_load = beam_udl + total_slab_dead_load + wall_load_n;
         total_live_load = slab_live_load;
         combination_1 = 1.5 * (total_dead_load + total_live_load)
     in Inr (PDict
          [(''beam_self_weight'', PFloat beam_udl),
           (''slab_dead_load'', PFloat total_slab_dead_load),
           (''slab_live_load'', PFloat slab_live_load),
           (''wall_load'', wall_load),
           (''total_dead_load'', PFloat total_dead_load),
           (''total_live_load'', PFloat total_live_load),
           (''factored_load'', PFloat combination_1),
           (''tributary_width'', tributary_width),
           (''unit'', PStr ''kN/m'')])))))))))))))))"

text \<open>
  \<open>auto_calculate_loads\<close> changes the design record in place and returns it; the model
  returns the changed record. \<open>building_data\<close> and \<open>wind_data\<close> are the very
  dictionaries stored in the record, so the defaults that \<open>setdefault\<close> adds show in
  the record's \<open>building_parameters\<close> and \<open>wind_parameters\<close>.
\<close>

definition building_defaults :: "(string \<times> pyval) list" where
  "building_defaults =
     [(''building_use'', PStr ''residential''), (''num_floors'', PInt 1), (''floor_height'', PFloat 3.0),
      (''slab_thickness'', PInt 150), (''tributary_area'', PFloat 20.0), (''tributary_width'', PFloat 3.0)]"

definition wind_defaults :: "(string \<times> pyval) list" where
  "wind_defaults =
     [(''wind_zone'', PStr ''zone_2''), (''terrain_category'', PInt 2), (''importance_factor'', PFloat 1.0)]"

definition column_loads :: "pyval \<Rightarrow> pyval \<Rightarrow> pyval \<Rightarrow> exn + pyval" where
  "column_loads design_data building_data wind_data =
     ebind (subscript design_data ''dimensions'') (\<lambda>dimensions.
     let column_data = PDict [(''dimensions'', dimensions), (''building_data'', building_data),
                              (''wind_data'', wind_data)] in
     ebind (calculate_column_axial_load column_data) (\<lambda>load_results.
     ebind (get_float dimensions ''length'' (PInt 3000)) (\<lambda>len.
     let total_height = len / 1000 in
     ebind (dict_get wind_data ''wind_zone'' (PStr ''zone_2'')) (\<lambda>wind_zone.
     ebind (dict_get wind_data ''terrain_category'' (PInt 2)) (\<lambda>terrain_category.
     ebind (calculate_wind_load total_height wind_zone terrain_category 1.0) (\<lambda>wind_load_data.
     ebind (get_num wind_load_data ''wind_pressure'') (\<lambda>wind_pressure.
     let wind_moment = wind_pressure * total_height ^ 2 / 6 in
     ebind (get_num load_results ''critical_axial_load'') (\<lambda>critical_axial_load.
     ebind (dict_set design_data ''loads'' (PDict
              [(''axial_load'', PFloatStr critical_axial_load),
               (''moment'', if 50 < wind_moment then PFloatStr wind_moment else PIntStr 50)])) (\<lambda>d1.
     ebind (dict_set d1 ''load_calculations'' load_results) (\<lambda>d2.
     dict_set d2 ''wind_calculations'' wind_load_data))))))))))"

definition beam_loads :: "pyval \<Rightarrow> pyval \<Rightarrow> pyval \<Rightarrow> exn + pyval" where
  "beam_loads design_data building_data wind_data =
     ebind (subscript design_data ''dimensions'') (\<lambda>dimensions.
     let beam_data = PDict [(''dimensions'', dimensions), (''loading_data'', building_data)] in
     ebind (calculate_beam_loads beam_data) (\<lambda>load_results.
     ebind (get_float dimensions ''depth'' (PInt 600)) (\<lambda>dp.
     let beam_height = dp / 1000 in
     ebind (dict_get wind_data ''wind_zone'' (PStr ''zone_2'')) (\<lambda>wind_zone.
     ebind (dict_get wind_data ''terrain_category'' (PInt 2)) (\<lambda>terrain_category.
     ebind (calculate_wind_load beam_height wind_zone terrain_category 1.0) (\<lambda>wind_load_data.
     ebind (get_num wind_load_data ''wind_pressure'') (\<lambda>wind_pressure.
     ebind (get_float dimensions ''breadth'' (PInt 300)) (\<lambda>br.
     let beam_width = br / 1000;
         wind_load_on_beam = wind_pressure * beam_width in
     ebind (get_num load_results ''total_dead_load'') (\<lambda>total_dead_load.
     ebind (get_num load_results ''total_live_load'') (\<lambda>total_live_load.
     ebind (get_num load_results ''factored_load'') (\<lambda>factored_load.
     ebind (dict_set design_data ''loads'' (PDict
              [(''dead_load'', PFloatStr total_dead_load),
               (''live_load'', PFloatStr total_live_load),
               (''wind_load'', PFloatStr wind_load_on_beam),
               (''factored_load'', PFloatStr factored_load)])) (\<lambda>d1.
     ebind (dict_set d1 ''load_calculations'' load_results) (\<lambda>d2.
     dict_set d2 ''wind_calculations'' wind_load_data)))))))))))))"

definition slab_loads :: "pyval \<Rightarrow> pyval \<Rightarrow> pyval \<Rightarrow> exn + pyval" where
  "slab_loads design_data building_data wind_data =
     ebind (subscript design_data ''dimensions'') (\<lambda>dimensions.
     ebind (calculate_self_weight ''slab'' dimensions (PStr ''concrete'')) (\<lambda>self_weight.
     ebind (dict_get building_data ''building_use'' (PStr ''residential'')) (\<lambda>building_use.
     let sidl = PDict (calculate_superimposed_dead_load ''slab'' building_use True True) in
     ebind (calculate_live_load ''slab'' building_use) (\<lambda>live_load.
     ebind (ebind (dict_get building_data ''floor_height'' (PFloat 3.0)) num_of) (\<lambda>floor_height.
     ebind (ebind (dict_get building_data ''num_floors'' (PInt 1)) num_of) (\<lambda>floors.
     let slab_height = floor_height * floors in
     ebind (dict_get wind_data ''wind_zone'' (PStr ''zone_2'')) (\<lambda>wind_zone.
     ebind (dict_get wind_data ''terrain_category'' (PInt 2)) (\<lambda>terrain_category.
     ebind (calculate_wind_load slab_height wind_zone terrain_category 1.0) (\<lambda>wind_load_data.
     ebind (get_num wind_load_data ''wind_pressure'') (\<lambda>wind_pressure.
     let wind_uplift = - 0.8 * wind_pressure in
     ebind (get_num self_weight ''self_weight_per_area'') (\<lambda>self_weight_per_area.
     ebind (ebind (dict_get sidl ''total_sidl'' (PFloat 2.0)) num_of) (\<lambda>total_sidl.
     let total_dead_load = self_weight_per_area + total_sidl in
     ebind (ebind (dict_get live_load ''live_load'' (PFloat 2.0)) num_of) (\<lambda>total_live_load.
     ebind (dict_set design_data ''loads'' (PDict
              [(''dead_load'', PFloatStr total_dead_load),
               (''live_load'', PFloatStr total_live_load),
               (''wind_load'', PFloatStr wind_uplift),
               (''total_load'', PFloatStr (total_dead_load + total_live_load))])) (\<lambda>d1.
     ebind (dict_set d1 ''load_calculations'' (PDict
              [(''self_weight'', self_weight), (''sidl'', sidl), (''live_load'', live_load)])) (\<lambda>d2.
     dict_set d2 ''wind_calculations'' wind_load_data)))))))))))))))"

definition footing_loads :: "pyval \<Rightarrow> pyval \<Rightarrow> pyval \<Rightarrow> exn + pyval" where
  "footing_loads design_data building_data wind_data =
     ebind (dict_get building_data ''num_floors'' (PInt 1)) (\<lambda>num_floors.
     ebind (dict_get building_data ''tributary_area'' (PFloat 20.0)) (\<lambda>tributary_area.
     ebind (dict_get building_data ''building_use'' (PStr ''residential'')) (\<lambda>building_use.
     ebind (calculate_live_load ''slab'' building_use) (\<lambda>live_load_data.
     ebind (ebind (dict_get live_load_data ''live_load'' (PFloat 2.0)) num_of) (\<lambda>live_load_per_floor.
     ebind (ebind (dict_get building_data ''slab_thickness'' (PInt 150)) num_of) (\<lambda>slab_thickness.
     let slab_dead_load = 25.0 * (slab_thickness / 1000);
         sidl = PDict (calculate_superimposed_dead_load ''slab'' building_use True True) in
     ebind (ebind (dict_get sidl ''total_sidl'' (PFloat 2.0)) num_of) (\<lambda>total_sidl.
     let total_dead_load_per_floor = slab_dead_load + total_sidl in
     ebind (num_of tributary_area) (\<lambda>area.
     ebind (num_of num_floors) (\<lambda>floors.
     let total_dead_load = total_dead_load_per_floor * area * floors;
         total_live_load = live_load_per_floor * area * floors in
     ebind (ebind (dict_get building_data ''floor_height'' (PFloat 3.0)) num_of) (\<lambda>floor_height.
     let building_height = floor_height * floors in
     ebind (dict_get wind_data ''wind_zone'' (PStr ''zone_2'')) (\<lambda>wind_zone.
     ebind (dict_get wind_data ''terrain_category'' (PInt 2)) (\<lambda>terrain_category.
     ebind (calculate_wind_load building_height wind_zone terrain_category 1.0) (\<lambda>wind_load_data.
     ebind (get_num wind_load_data ''wind_pressure'') (\<lambda>wind_pressure.
     let wind_area = building_height * 10;
         wind_force = wind_pressure * wind_area;
         wind_moment = wind_force * building_height / 2 in
     ebind (subscript design_data ''dimensions'') (\<lambda>dimensions.
     ebind (calculate_self_weight ''footing'' dimensions (PStr ''concrete'')) (\<lambda>footing_self_weight.
     ebind (get_num footing_self_weight ''total_self_weight'') (\<lambda>footing_weight.
     ebind (dict_set design_data ''loads'' (PDict
              [(''vertical_load'', PFloatStr (total_dead_load + total_live_load + footing_weight)),
               (''dead_load'', PFloatStr total_dead_load),
               (''live_load'', PFloatStr total_live_load),
               (''wind_moment'', PFloatStr wind_moment)])) (\<lambda>d1.
     ebind (dict_set d1 ''load_calculations'' (PDict
              [(''dead_load_per_floor'', PFloat total_dead_load_per_floor),
               (''live_load_per_floor'', PFloat live_load_per_floor),
               (''total_dead_load'', PFloat total_dead_load),
               (''total_live_load'', PFloat total_live_load),
               (''footing_self_weight'', PFloat footing_weight),
               (''num_floors'', num_floors),
               (''tributary_area'', tributary_area)])) (\<lambda>d2.
     dict_set d2 ''wind_calculations'' wind_load_data)))))))))))))))))))"

definition auto_calculate_loads :: "pyval \<Rightarrow> pyval \<Rightarrow> exn + pyval" where
  "auto_calculate_loads member_type design_data =
     ebind (dict_get design_data ''building_parameters'' (PDict [])) (\<lambda>given_building.
     ebind (setdefaults (if truthy given_building then given_building else PDict building_defaults)
              (building_defaults @ [(''wall_load'', PInt 0)])) (\<lambda>building_data.
     ebind (dict_set design_data ''building_parameters'' building_data) (\<lambda>design_b.
     ebind (dict_get design_b ''wind_parameters'' (PDict [])) (\<lambda>given_wind.
     ebind (setdefaults (if truthy given_wind then given_wind else PDict wind_defaults)
              wind_defaults) (\<lambda>wind_data.
     ebind (dict_set design_b ''wind_parameters'' wind_data) (\<lambda>design_w.
     if member_type = PStr ''column'' then column_loads design_w building_data wind_data
     else if member_type = PStr ''beam'' then beam_loads design_w building_data wind_data
     else if member_type = PStr ''slab'' then slab_loads design_w building_data wind_data
     else if member_type = PStr ''footing'' then footing_loads design_w building_data wind_data
     else Inr design_w))))))"

section \<open>check_code_new.py\<close>

text \<open>
  \<open>str.lower()\<close> on the ASCII letters; any other character is left as it is. A value
  that is not text has no \<open>lower\<close> method.
\<close>

definition lower_char :: "char \<Rightarrow> char" where
  "lower_char c =
     (case map_of (zip ''ABCDEFGHIJKLMNOPQRSTUVWXYZ'' ''abcdefghijklmnopqrstuvwxyz'') c of
        Some l \<Rightarrow> l | None \<Rightarrow> c)"

fun py_lower :: "pyval \<Rightarrow> exn + pyval" where
  "py_lower (PStr s) = Inr (PStr (map lower_char s))"
| "py_lower (PIntStr i) = Inr (PIntStr i)"
| "py_lower (PFloatStr r) = Inr (PFloatStr r)"
| "py_lower _ = Inl AttributeError"

text \<open>The text of a value inside an f-string; the digits of a number's text are not modelled.\<close>

fun str_text :: "pyval \<Rightarrow> string" where
  "str_text (PStr s) = s"
| "str_text _ = ''<number>''"

definition supported_types :: "pyval list" where
  "supported_types = [PStr ''beam'', PStr ''column'', PStr ''slab'', PStr ''footing'']"

definition unsupported_result :: "pyval \<Rightarrow> pyval" where
  "unsupported_result member_type =
     PDict [(''error'', PStr (''Unsupported member type: '' @ str_text member_type)),
            (''supported_types'', PList supported_types)]"

definition recommendations :: "pyval \<Rightarrow> pyval list" where
  "recommendations member_type =
     (if member_type = PStr ''beam'' then
        [PStr ''Consider increasing beam depth if moment capacity is insufficient'',
         PStr ''Check reinforcement spacing for shear requirements'']
      else if member_type = PStr ''column'' then
        [PStr ''Increase column dimensions if axial capacity is exceeded'',
         PStr ''Check minimum reinforcement percentage'']
      else if member_type = PStr ''slab'' then
        [PStr ''Consider increasing slab thickness if deflection is excessive'',
         PStr ''Check reinforcement requirements for flexure'']
      else if member_type = PStr ''footing'' then
        [PStr ''Increase footing dimensions if bearing pressure is excessive'',
         PStr ''Check reinforcement for punching shear'']
      else [])"

text \<open>
  The first step of the orchestrator: the design record the member checker receives.
  \<open>has_key\<close> is only applied to the record after its \<open>get\<close> has succeeded, that is
  to a dictionary.
\<close>

definition resolve_loads :: "pyval \<Rightarrow> pyval \<Rightarrow> exn + pyval" where
  "resolve_loads member_type design_data =
     ebind (dict_get design_data ''auto_calculate_loads'' (PBool True)) (\<lambda>auto_calc.
     if truthy auto_calc \<or> \<not> has_key design_data ''loads''
     then auto_calculate_loads member_type design_data
     else Inr design_data)"

text \<open>The steps after the member checker has returned: recommendations and load audit.\<close>

definition finish_result :: "pyval \<Rightarrow> pyval \<Rightarrow> pyval \<Rightarrow> exn + pyval" where
  "finish_result member_type design_data result =
     ebind (dict_get result ''overall_compliance'' (PBool True)) (\<lambda>overall.
     ebind (if \<not> truthy overall
            then dict_set result ''recommendations'' (PList (recommendations member_type))
            else Inr result) (\<lambda>result1.
     if has_key design_data ''load_calculations''
     then ebind (subscript design_data ''load_calculations'') (\<lambda>load_calculations.
          ebind (dict_set result1 ''load_calculations'' load_calculations) (\<lambda>result2.
          ebind (subscript design_data ''loads'') (\<lambda>loads.
          dict_set result2 ''calculated_loads'' loads)))
     else Inr result1))"

definition dispatch :: "pyval \<Rightarrow> pyval \<Rightarrow> exn + pyval" where
  "dispatch member_type design_data =
     (if member_type = PStr ''beam'' then
        finish_result member_type design_data (check_beam_compliance design_data)
      else if member_type = PStr ''column'' then
        finish_result member_type design_data (check_column_compliance design_data)
      else if member_type = PStr ''slab'' then
        finish_result member_type design_data (check_slab_compliance design_data)
      else if member_type = PStr ''footing'' then
        finish_result member_type design_data (check_footing_compliance design_data)
      else Inr (unsupported_result member_type))"

text \<open>
  \<open>check_compliance\<close>. \<open>Inl\<close> is an exception that leaves the function. The handler
  builds its result from the local \<open>member_type\<close>; when the first statement of the
  \<open>try\<close> block raises, that local was never bound and the handler itself raises
  UnboundLocalError.
\<close>

definition check_compliance :: "pyval \<Rightarrow> exn + pyval" where
  "check_compliance design_data =
     (case ebind (dict_get design_data ''member_type'' (PStr [])) py_lower of
        Inl e \<Rightarrow> Inl UnboundLocalError
      | Inr member_type \<Rightarrow>
          (case ebind (resolve_loads member_type design_data) (dispatch member_type) of
             Inr result \<Rightarrow> Inr result
           | Inl e \<Rightarrow> Inr (PDict [(''error'', PStr (''Compliance check failed: '' @ exn_text e)),
                                 (''member_type'', member_type)])))"

section \<open>Reading results\<close>

text \<open>
  \<open>result_get r k\<close> reads field \<open>k\<close> of a result dictionary; \<open>pass_flag c\<close> holds
  when the \<open>pass\<close> field of a check is \<open>True\<close>. A result is consistent when it has a
  \<open>checks\<close> mapping, its \<open>overall_compliance\<close> is the conjunction of the \<open>pass\<close> flags
  of all checks in it, and its \<open>status\<close> is \<open>PASS\<close> exactly when that conjunction holds.
\<close>

definition result_get :: "pyval \<Rightarrow> string \<Rightarrow> pyval option" where
  "result_get r k = (case r of PDict kvs \<Rightarrow> map_of kvs k | _ \<Rightarrow> None)"

definition pass_flag :: "pyval \<Rightarrow> bool" where
  "pass_flag c = (result_get c ''pass'' = Some (PBool True))"

definition consistent_result :: "pyval \<Rightarrow> bool" where
  "consistent_result r =
     (\<exists>checks. result_get r ''checks'' = Some (PDict checks) \<and>
        result_get r ''overall_compliance'' = Some (PBool (list_all (\<lambda>(name, c). pass_flag c) checks)) \<and>
        (result_get r ''status'' = Some (PStr ''PASS'')) = list_all (\<lambda>(name, c). pass_flag c) checks)"

definition has_flag :: "string \<times> pyval \<Rightarrow> bool" where
  "has_flag entry = (\<exists>b. subscript (snd entry) ''pass'' = Inr (PBool b))"

text \<open>The shape of a result that a checker's \<open>try\<close> block returns.\<close>

definition full_result :: "string \<Rightarrow> pyval \<Rightarrow> bool" where
  "full_result member r =
     (\<exists>summary checks.
        r = PDict [(''member_type'', PStr member),
                   (''overall_compliance'', PBool (list_all (\<lambda>(name, c). pass_flag c) checks)),
                   (''design_summary'', summary),
                   (''checks'', PDict checks),
                   (''status'', status_of (list_all (\<lambda>(name, c). pass_flag c) checks))])"

definition member_checkers :: "(pyval \<Rightarrow> pyval) list" where
  "member_checkers =
     [check_beam_compliance, check_column_compliance, check_slab_compliance, check_footing_compliance]"

text \<open>
  Scenario A of the specification: a beam of concrete M20 and steel Fe415, span 6 m,
  section 300 x 600 mm, 4 bars of 16 mm, cover 25 mm, dead load 2.5 and live load 3 kN/m.
\<close>

definition beam_scenario :: pyval where
  "beam_scenario = PDict
     [(''member_type'', PStr ''beam''),
      (''dimensions'', PDict [(''length'', PInt 6), (''breadth'', PInt 300), (''depth'', PInt 600)]),
      (''materials'', PDict [(''concrete_grade'', PStr ''M20''), (''steel_grade'', PStr ''Fe415'')]),
      (''reinforcement'', PDict [(''bar_diameter'', PInt 16), (''num_bars'', PInt 4), (''cover'', PInt 25)]),
      (''loads'', PDict [(''dead_load'', PFloat 2.5), (''live_load'', PInt 3)]),
      (''auto_calculate_loads'', PBool False)]"

text \<open>
  \<open>check_entry r name\<close> is the check called \<open>name\<close> in the \<open>checks\<close> mapping of a
  result, \<open>summary_get r k\<close> is field \<open>k\<close> of its \<open>design_summary\<close>.
\<close>

definition check_entry :: "pyval \<Rightarrow> string \<Rightarrow> pyval option" where
  "check_entry r name = (case result_get r ''checks'' of Some c \<Rightarrow> result_get c name | None \<Rightarrow> None)"

definition summary_get :: "pyval \<Rightarrow> string \<Rightarrow> pyval option" where
  "summary_get r k = (case result_get r ''design_summary'' of Some c \<Rightarrow> result_get c k | None \<Rightarrow> None)"

text \<open>
  \<open>with_num_bars d v\<close> is the design record \<open>d\<close> with \<open>num_bars\<close> of its reinforcement
  set to \<open>v\<close> and nothing else changed.
\<close>

definition with_num_bars :: "pyval \<Rightarrow> pyval \<Rightarrow> pyval" where
  "with_num_bars d v =
     (case d of
        PDict kvs \<Rightarrow>
          (case map_of kvs ''reinforcement'' of
             Some (PDict re) \<Rightarrow>
               PDict (AList.update ''reinforcement'' (PDict (AList.update ''num_bars'' v re)) kvs)
           | _ \<Rightarrow> d)
      | _ \<Rightarrow> d)"

text \<open>
  Scenario B of the specification, a column of 150 x 150 mm; the two slabs of scenario D,
  with aspect ratios 2.5 and 1.5; and a beam whose design moment is 750 Nmm.
\<close>

definition column_scenario :: pyval where
  "column_scenario = PDict
     [(''member_type'', PStr ''column''),
      (''dimensions'', PDict [(''length'', PInt 3), (''breadth'', PInt 150), (''depth'', PInt 150)]),
      (''materials'', PDict [(''concrete_grade'', PStr ''M25''), (''steel_grade'', PStr ''Fe500'')]),
      (''reinforcement'', PDict [(''bar_diameter'', PInt 16), (''num_bars'', PInt 4), (''cover'', PInt 40)]),
      (''loads'', PDict [(''axial_load'', PInt 100)]),
      (''auto_calculate_loads'', PBool False)]"

definition slab_one_way :: pyval where
  "slab_one_way = PDict
     [(''member_type'', PStr ''slab''),
      (''dimensions'', PDict [(''length'', PInt 5), (''breadth'', PInt 2), (''depth'', PInt 150)]),
      (''materials'', PDict [(''concrete_grade'', PStr ''M20''), (''steel_grade'', PStr ''Fe500'')]),
      (''reinforcement'', PDict [(''bar_diameter'', PInt 10), (''spacing'', PInt 150), (''cover'', PInt 20)]),
      (''loads'', PDict [(''dead_load'', PFloat 1.5), (''live_load'', PInt 2)]),
      (''auto_calculate_loads'', PBool False)]"

definition slab_two_way :: pyval where
  "slab_two_way = PDict
     [(''member_type'', PStr ''slab''),
      (''dimensions'', PDict [(''length'', PInt 3), (''breadth'', PInt 2), (''depth'', PInt 150)]),
      (''materials'', PDict [(''concrete_grade'', PStr ''M20''), (''steel_grade'', PStr ''Fe500'')]),
      (''reinforcement'', PDict [(''bar_diameter'', PInt 10), (''spacing'', PInt 150), (''cover'', PInt 20)]),
      (''loads'', PDict [(''dead_load'', PFloat 1.5), (''live_load'', PInt 2)]),
      (''auto_calculate_loads'', PBool False)]"

definition tiny_beam :: pyval where
  "tiny_beam = PDict
     [(''member_type'', PStr ''beam''),
      (''dimensions'', PDict [(''length'', PInt 1), (''breadth'', PInt 300), (''depth'', PInt 600)]),
      (''materials'', PDict [(''concrete_grade'', PStr ''M20''), (''steel_grade'', PStr ''Fe415'')]),
      (''reinforcement'', PDict [(''bar_diameter'', PInt 16), (''num_bars'', PInt 4), (''cover'', PInt 25)]),
      (''loads'', PDict [(''dead_load'', PFloat 0.004), (''live_load'', PInt 0)]),
      (''auto_calculate_loads'', PBool False)]"

text \<open>
  The governing load combination in the words of the specification.
\<close>

definition governing_combination :: "real \<Rightarrow> real \<Rightarrow> real \<Rightarrow> real" where
  "governing_combination DL LL WL =
     max (max (1.5 * (DL + LL)) (1.2 * (DL + LL + WL))) (1.5 * (DL + 0.25 * LL + WL))"


text \<open>
  A footing of 2 m x 2 m x 500 mm with no loads block; the beam of scenario A with its
  loads block and no \<open>auto_calculate_loads\<close> flag; and the column data that the
  calculator builds for the column of scenario B.
\<close>

definition footing_scenario :: pyval where
  "footing_scenario = PDict
     [(''member_type'', PStr ''footing''),
      (''dimensions'', PDict [(''length'', PInt 2), (''breadth'', PInt 2), (''depth'', PInt 500)]),
      (''materials'', PDict [(''concrete_grade'', PStr ''M20''), (''steel_grade'', PStr ''Fe500'')]),
      (''reinforcement'', PDict [(''bar_diameter'', PInt 16), (''spacing'', PInt 150), (''cover'', PInt 50)])]"


definition column_scenario_data :: pyval where
  "column_scenario_data = PDict
       [(''dimensions'', PDict [(''length'', PInt 3), (''breadth'', PInt 150), (''depth'', PInt 150)]),
        (''building_data'', PDict (building_defaults @ [(''wall_load'', PInt 0)])),
        (''wind_data'', PDict wind_defaults)]"

section \<open>Proof infrastructure\<close>

lemma ebind_Inr [simp]: "ebind (Inr x) f = f x"
  by (simp add: ebind_def)

lemma ebind_Inl [simp]: "ebind (Inl e) f = Inl e"
  by (simp add: ebind_def)

lemma ebind_InrE:
  "ebind m f = Inr y \<Longrightarrow> (\<And>x. m = Inr x \<Longrightarrow> f x = Inr y \<Longrightarrow> Q) \<Longrightarrow> Q"
  by (cases m) simp_all

lemma all_pass_flags:
  "list_all has_flag cs \<Longrightarrow> all_pass cs = Inr (list_all (\<lambda>(name, c). pass_flag c) cs)"
proof (induction cs)
  case Nil
  then show ?case by simp
next
  case (Cons entry cs)
  obtain n c where entry: "entry = (n, c)" by (cases entry)
  from Cons.prems entry obtain b where b: "subscript c ''pass'' = Inr (PBool b)"
    by (auto simp: has_flag_def)
  then have "pass_flag c = b"
    by (cases c) (auto simp: pass_flag_def result_get_def split: option.splits)
  with Cons b entry show ?case by simp
qed

lemma beam_flags: "list_all has_flag (beam_checks x1 x2 x3 x4 x5 x6 x7 x8 x9 x10 x11 x12)"
  by (simp add: beam_checks_def has_flag_def)

lemma column_flags: "list_all has_flag (column_checks x1 x2 x3 x4 x5 x6 x7 x8 x9 x10 x11)"
  by (auto simp add: column_checks_def has_flag_def)

lemma slab_flags: "list_all has_flag (slab_checks x1 x2 x3 x4 x5 x6 x7 x8)"
  by (simp add: slab_checks_def has_flag_def)

lemma distribution_flags:
  "add_distribution_check t re th ba cs = Inr cs' \<Longrightarrow> list_all has_flag cs \<Longrightarrow> list_all has_flag cs'"
  unfolding add_distribution_check_def Let_def
  by (auto simp: distribution_check_def has_flag_def split: if_splits elim!: ebind_InrE)

lemma one_way_flag: "one_way_shear_check ss np sh b d ap fck = Inr entry \<Longrightarrow> has_flag entry"
  unfolding one_way_shear_check_def Let_def
  by (auto simp: has_flag_def split: if_splits elim!: ebind_InrE)

lemma footing_flags:
  "has_flag ows \<Longrightarrow> list_all has_flag (footing_checks x1 x2 x3 x4 x5 x6 x7 x8 ows x10 x11)"
  by (simp add: footing_checks_def has_flag_def)

lemma full_resultI:
  "all_pass checks = Inr b \<Longrightarrow> list_all has_flag checks \<Longrightarrow>
   full_result member (PDict [(''member_type'', PStr member), (''overall_compliance'', PBool b),
      (''design_summary'', s), (''checks'', PDict checks), (''status'', status_of b)])"
  by (auto simp add: all_pass_flags full_result_def)

lemma full_result_consistent: "full_result member r \<Longrightarrow> consistent_result r"
  by (auto simp: full_result_def consistent_result_def result_get_def status_of_def)

lemma full_result_no_error: "full_result member r \<Longrightarrow> result_get r ''error'' = None"
  by (auto simp: full_result_def result_get_def)

lemma beam_body_full: "check_beam_body d = Inr r \<Longrightarrow> full_result ''beam'' r"
  unfolding check_beam_body_def Let_def split_def
  by (elim ebind_InrE) (auto intro!: full_resultI beam_flags)

lemma column_body_full: "check_column_body d = Inr r \<Longrightarrow> full_result ''column'' r"
  unfolding check_column_body_def Let_def split_def
  by (elim ebind_InrE) (auto intro!: full_resultI column_flags)

lemma slab_body_full: "check_slab_body d = Inr r \<Longrightarrow> full_result ''slab'' r"
  unfolding check_slab_body_def Let_def split_def
  by (elim ebind_InrE) (auto intro!: full_resultI elim: distribution_flags simp: slab_flags)

lemma footing_body_full: "check_footing_body d = Inr r \<Longrightarrow> full_result ''footing'' r"
  unfolding check_footing_body_def Let_def split_def
  by (elim ebind_InrE) (auto intro!: full_resultI footing_flags elim: one_way_flag)

lemma catch_all_no_error:
  "result_get (catch_all prefix member m) ''error'' = None \<Longrightarrow> \<exists>r. m = Inr r"
  by (cases m) (simp_all add: catch_all_def error_result_def result_get_def)

lemma beam_scenario_runs: "\<exists>r. check_beam_body beam_scenario = Inr r"
  by (simp add: check_beam_body_def beam_scenario_def get_float_def CONCRETE_GRADES_def
      STEEL_GRADES_def LOAD_FACTOR_DEAD_def LOAD_FACTOR_LIVE_def calculate_design_moment_def
      calculate_design_shear_def calculate_required_area_of_steel_def required_area_nmm_def
      py_div_def py_sqrt_def check_minimum_steel_def check_maximum_steel_def
      calculate_shear_capacity_def calculate_deflection_ratio_def all_pass_flags beam_flags Let_def)

lemma py_div_Inr: "py_div a b = Inr q \<Longrightarrow> b \<noteq> 0 \<and> q = a / b"
  by (auto simp: py_div_def split: if_splits)

lemma catch_all_Inr: "catch_all prefix member (Inr r) = r"
  by (simp add: catch_all_def)

lemma catch_all_entry:
  "check_entry (catch_all prefix member m) name = Some c \<Longrightarrow> \<exists>r. m = Inr r"
  by (cases m) (simp_all add: catch_all_def error_result_def check_entry_def result_get_def)

subsection \<open>The column checker's tie check\<close>

lemma column_body_tie:
  "check_column_body d = Inr r \<Longrightarrow>
   \<exists>tie_dia tie_spacing. check_entry r ''tie_reinforcement'' = Some (PDict
       [(''minimum_tie_diameter'', tie_dia),
        (''maximum_tie_spacing'', tie_spacing),
        (''description'', PStr ''Tie reinforcement requirements (IS 456 Cl. 26.5.3.2)''),
        (''pass'', PBool True)])"
  unfolding check_column_body_def Let_def split_def
  by (elim ebind_InrE) (auto simp: check_entry_def result_get_def column_checks_def)

lemma column_scenario_runs: "\<exists>r. check_column_body column_scenario = Inr r"
  by (simp add: check_column_body_def column_scenario_def get_float_def CONCRETE_GRADES_def
      STEEL_GRADES_def LOAD_FACTOR_DEAD_def py_div_def all_pass_flags column_flags Let_def)

subsection \<open>The slab checker's type and distribution check\<close>

lemma slab_checks_no_distribution:
  "map_of (slab_checks x1 x2 x3 x4 x5 x6 x7 x8) ''distribution_steel'' = None"
  by (simp add: slab_checks_def)

lemma add_distribution_entry:
  "add_distribution_check t re th ba (slab_checks x1 x2 x3 x4 x5 x6 x7 x8) = Inr cs \<Longrightarrow>
   (map_of cs ''distribution_steel'' \<noteq> None) = (t = ''one_way'')"
  unfolding add_distribution_check_def Let_def
  by (auto simp: slab_checks_no_distribution distribution_check_def map_add_def
      split: if_splits elim!: ebind_InrE)

lemma slab_body_type:
  assumes "check_slab_body d = Inr r"
  shows "\<exists>dims len br.
     subscript d ''dimensions'' = Inr dims \<and>
     get_float dims ''length'' (PInt 0) = Inr len \<and>
     get_float dims ''breadth'' (PInt 0) = Inr br \<and>
     summary_get r ''length'' = Some (PFloat (len * 1000)) \<and>
     summary_get r ''breadth'' = Some (PFloat (br * 1000)) \<and>
     min (len * 1000) (br * 1000) \<noteq> 0 \<and>
     summary_get r ''slab_type'' =
       Some (PStr (if 2 \<le> max (len * 1000) (br * 1000) / min (len * 1000) (br * 1000)
                   then ''one_way'' else ''two_way'')) \<and>
     (check_entry r ''distribution_steel'' \<noteq> None) =
       (2 \<le> max (len * 1000) (br * 1000) / min (len * 1000) (br * 1000))"
  using assms unfolding check_slab_body_def Let_def split_def
proof (elim ebind_InrE, goal_cases)
  case (1 dims loads mats reinf len br thickness cover bar_dia cg sg fck fy dl ll ar Areq spacing
      Aprov tau_v pt sq checks op)
  from py_div_Inr [OF 1(16)] have nz: "min (len * 1000) (br * 1000) \<noteq> 0"
    and ar: "ar = max (len * 1000) (br * 1000) / min (len * 1000) (br * 1000)"
    by simp_all
  from add_distribution_entry [OF 1(23)]
  have dist: "(map_of checks ''distribution_steel'' \<noteq> None) = (2 \<le> ar)"
    by simp
  from 1(25) have r: "r = PDict
       [(''member_type'', PStr ''slab''),
        (''overall_compliance'', PBool op),
        (''design_summary'', PDict
           [(''length'', PFloat (len * 1000)),
            (''breadth'', PFloat (br * 1000)),
            (''thickness'', PFloat thickness),
            (''effective_depth'', PFloat (py_round (thickness - cover - bar_dia / 2) 2)),
            (''slab_type'', PStr (if 2 \<le> ar then ''one_way'' else ''two_way'')),
            (''aspect_ratio'', PFloat (py_round ar 2)),
            (''design_moment'', PFloat (py_round
               (if (if 2 \<le> ar then ''one_way'' else ''two_way'') = ''one_way''
                then (LOAD_FACTOR_DEAD * (dl + thickness / 1000 * CONCRETE_DENSITY) +
                      LOAD_FACTOR_LIVE * ll) * (min (len * 1000) (br * 1000) / 1000) ^ 2 / 8
                else 0.087 * (LOAD_FACTOR_DEAD * (dl + thickness / 1000 * CONCRETE_DENSITY) +
                      LOAD_FACTOR_LIVE * ll) * (min (len * 1000) (br * 1000) / 1000) ^ 2) 2)),
            (''factored_load'', PFloat (py_round
               (LOAD_FACTOR_DEAD * (dl + thickness / 1000 * CONCRETE_DENSITY) +
                LOAD_FACTOR_LIVE * ll) 2)),
            (''concrete_grade'', cg),
            (''steel_grade'', sg)]),
        (''checks'', PDict checks),
        (''status'', status_of op)]"
    by simp
  have s1: "summary_get r ''length'' = Some (PFloat (len * 1000))"
    and s2: "summary_get r ''breadth'' = Some (PFloat (br * 1000))"
    and s3: "summary_get r ''slab_type'' = Some (PStr (if 2 \<le> ar then ''one_way'' else ''two_way''))"
    and s4: "check_entry r ''distribution_steel'' = map_of checks ''distribution_steel''"
    unfolding r by (simp_all add: summary_get_def check_entry_def result_get_def)
  from 1(1) 1(5) 1(6) nz s1 s2 s3 [unfolded ar] s4 dist [unfolded ar] show ?case
    by auto
qed

lemma slab_one_way_runs: "\<exists>r. check_slab_body slab_one_way = Inr r"
  by (simp add: check_slab_body_def slab_one_way_def get_float_def CONCRETE_GRADES_def
      STEEL_GRADES_def LOAD_FACTOR_DEAD_def LOAD_FACTOR_LIVE_def CONCRETE_DENSITY_def
      strip_required_steel_def add_distribution_check_def distribution_check_def
      py_div_def py_sqrt_def all_pass_flags slab_flags has_flag_def Let_def)

lemma slab_two_way_runs: "\<exists>r. check_slab_body slab_two_way = Inr r"
  by (simp add: check_slab_body_def slab_two_way_def get_float_def CONCRETE_GRADES_def
      STEEL_GRADES_def LOAD_FACTOR_DEAD_def LOAD_FACTOR_LIVE_def CONCRETE_DENSITY_def
      strip_required_steel_def add_distribution_check_def distribution_check_def
      py_div_def py_sqrt_def all_pass_flags slab_flags has_flag_def Let_def)

subsection \<open>The beam checker's steel checks\<close>

lemma subscript_with_num_bars:
  "k \<noteq> ''reinforcement'' \<Longrightarrow> subscript (with_num_bars d v) k = subscript d k"
  by (auto simp: with_num_bars_def update_conv' split: pyval.splits option.splits)

lemma reinforcement_with_num_bars:
  assumes "subscript (with_num_bars d v) ''reinforcement'' = Inr re'"
    and "dict_get re' k dflt = Inr x"
  shows "\<exists>re. subscript d ''reinforcement'' = Inr (PDict re) \<and>
              re' = PDict (AList.update ''num_bars'' v re)"
  using assms
  by (cases re') (auto simp: with_num_bars_def update_conv' split: pyval.splits option.splits if_splits)

lemma get_float_update:
  "k \<noteq> k' \<Longrightarrow> get_float (PDict (AList.update k' v re)) k dflt = get_float (PDict re) k dflt"
  by (simp add: get_float_def update_conv')

lemma beam_body_steel:
  assumes "check_beam_body d = Inr r"
  shows "\<exists>dims loads mats reinf len width depth cover bar_dia cg sg fck fy dl ll Mu Areq raw nb q.
     subscript d ''dimensions'' = Inr dims \<and> subscript d ''loads'' = Inr loads \<and>
     subscript d ''materials'' = Inr mats \<and> subscript d ''reinforcement'' = Inr reinf \<and>
     get_float dims ''length'' (PInt 0) = Inr len \<and>
     get_float dims ''breadth'' (PInt 0) = Inr width \<and>
     get_float dims ''depth'' (PInt 0) = Inr depth \<and>
     get_float reinf ''cover'' (PInt 25) = Inr cover \<and>
     get_float reinf ''bar_diameter'' (PInt 16) = Inr bar_dia \<and>
     dict_get mats ''concrete_grade'' (PStr ''M20'') = Inr cg \<and>
     dict_get mats ''steel_grade'' (PStr ''Fe500'') = Inr sg \<and>
     table_get CONCRETE_GRADES cg 20 = Inr fck \<and>
     table_get STEEL_GRADES sg 500 = Inr fy \<and>
     get_float loads ''dead_load'' (PInt 0) = Inr dl \<and>
     get_float loads ''live_load'' (PInt 0) = Inr ll \<and>
     calculate_design_moment len (LOAD_FACTOR_DEAD * dl + LOAD_FACTOR_LIVE * ll) [] = Inr Mu \<and>
     calculate_required_area_of_steel (Mu * 1000000) fck fy width (depth - cover - bar_dia / 2) = Inr Areq \<and>
     dict_get reinf ''num_bars'' (PInt 2) = Inr raw \<and> int_of raw = Inr nb \<and>
     py_div 0.85 fy = Inr q \<and>
     check_entry r ''flexural_strength'' = Some (PDict
       [(''required_steel'', PFloat (py_round Areq 2)),
        (''provided_steel'', PFloat (py_round (of_int nb * (pi * (bar_dia / 2) ^ 2)) 2)),
        (''pass'', PBool (Areq \<le> of_int nb * (pi * (bar_dia / 2) ^ 2))),
        (''description'', PStr ''Flexural reinforcement adequacy'')]) \<and>
     check_entry r ''minimum_steel'' = Some (PDict
       [(''minimum_required'', PFloat (py_round (q * width * (depth - cover - bar_dia / 2)) 2)),
        (''provided_steel'', PFloat (py_round (of_int nb * (pi * (bar_dia / 2) ^ 2)) 2)),
        (''pass'', PBool (q * width * (depth - cover - bar_dia / 2) \<le> of_int nb * (pi * (bar_dia / 2) ^ 2))),
        (''description'', PStr ''Minimum tension reinforcement (IS 456 Cl. 26.5.1.1)'')])"
  using assms unfolding check_beam_body_def Let_def split_def
proof (elim ebind_InrE, goal_cases)
  case (1 dims loads mats reinf len width depth cover bar_dia cg sg fck fy dl ll Mu Areq nb raw mn
      Vc ratio sq ld op)
  from 1 have Mu: "calculate_design_moment len (LOAD_FACTOR_DEAD * dl + LOAD_FACTOR_LIVE * ll) [] = Inr Mu"
    by simp
  from 1 obtain q where q: "py_div 0.85 fy = Inr q"
    and mn: "mn = (q * width * (depth - cover - bar_dia / 2) \<le> of_int nb * (pi * (bar_dia / 2) ^ 2),
                   q * width * (depth - cover - bar_dia / 2))"
    unfolding check_minimum_steel_def Let_def by (auto elim!: ebind_InrE)
  from 1 have flex: "check_entry r ''flexural_strength'' = Some (PDict
       [(''required_steel'', PFloat (py_round Areq 2)),
        (''provided_steel'', PFloat (py_round (of_int nb * (pi * (bar_dia / 2) ^ 2)) 2)),
        (''pass'', PBool (Areq \<le> of_int nb * (pi * (bar_dia / 2) ^ 2))),
        (''description'', PStr ''Flexural reinforcement adequacy'')])"
    by (auto simp: check_entry_def result_get_def beam_checks_def)
  from 1 mn have minst: "check_entry r ''minimum_steel'' = Some (PDict
       [(''minimum_required'', PFloat (py_round (q * width * (depth - cover - bar_dia / 2)) 2)),
        (''provided_steel'', PFloat (py_round (of_int nb * (pi * (bar_dia / 2) ^ 2)) 2)),
        (''pass'', PBool (q * width * (depth - cover - bar_dia / 2) \<le> of_int nb * (pi * (bar_dia / 2) ^ 2))),
        (''description'', PStr ''Minimum tension reinforcement (IS 456 Cl. 26.5.1.1)'')])"
    by (auto simp: check_entry_def result_get_def beam_checks_def)
  from 1 Mu q flex minst show ?case by blast
qed

lemma beam_steel_monotone:
  assumes n1: "int_of v1 = Inr n1" and n2: "int_of v2 = Inr n2" and le: "n1 \<le> n2"
    and run1: "check_beam_body (with_num_bars d v1) = Inr r1"
    and run2: "check_beam_body (with_num_bars d v2) = Inr r2"
    and name: "name = ''flexural_strength'' \<or> name = ''minimum_steel''"
    and c1: "check_entry r1 name = Some c1" and c2: "check_entry r2 name = Some c2"
    and pass1: "pass_flag c1"
  shows "pass_flag c2"
proof -
  from beam_body_steel [OF run1] obtain dims loads mats reinf len width depth cover bar_dia cg sg
      fck fy dl ll Mu Areq raw nb q
    where a: "subscript (with_num_bars d v1) ''dimensions'' = Inr dims"
      "subscript (with_num_bars d v1) ''loads'' = Inr loads"
      "subscript (with_num_bars d v1) ''materials'' = Inr mats"
      "subscript (with_num_bars d v1) ''reinforcement'' = Inr reinf"
      "get_float dims ''length'' (PInt 0) = Inr len"
      "get_float dims ''breadth'' (PInt 0) = Inr width"
      "get_float dims ''depth'' (PInt 0) = Inr depth"
      "get_float reinf ''cover'' (PInt 25) = Inr cover"
      "get_float reinf ''bar_diameter'' (PInt 16) = Inr bar_dia"
      "dict_get mats ''concrete_grade'' (PStr ''M20'') = Inr cg"
      "dict_get mats ''steel_grade'' (PStr ''Fe500'') = Inr sg"
      "table_get CONCRETE_GRADES cg 20 = Inr fck"
      "table_get STEEL_GRADES sg 500 = Inr fy"
      "get_float loads ''dead_load'' (PInt 0) = Inr dl"
      "get_float loads ''live_load'' (PInt 0) = Inr ll"
      "calculate_design_moment len (LOAD_FACTOR_DEAD * dl + LOAD_FACTOR_LIVE * ll) [] = Inr Mu"
      "calculate_required_area_of_steel (Mu * 1000000) fck fy width (depth - cover - bar_dia / 2) = Inr Areq"
      "dict_get reinf ''num_bars'' (PInt 2) = Inr raw" "int_of raw = Inr nb"
      "py_div 0.85 fy = Inr q"
      and flex1: "check_entry r1 ''flexural_strength'' = Some (PDict
       [(''required_steel'', PFloat (py_round Areq 2)),
        (''provided_steel'', PFloat (py_round (of_int nb * (pi * (bar_dia / 2) ^ 2)) 2)),
        (''pass'', PBool (Areq \<le> of_int nb * (pi * (bar_dia / 2) ^ 2))),
        (''description'', PStr ''Flexural reinforcement adequacy'')])"
      and min1: "check_entry r1 ''minimum_steel'' = Some (PDict
       [(''minimum_required'', PFloat (py_round (q * width * (depth - cover - bar_dia / 2)) 2)),
        (''provided_steel'', PFloat (py_round (of_int nb * (pi * (bar_dia / 2) ^ 2)) 2)),
        (''pass'', PBool (q * width * (depth - cover - bar_dia / 2) \<le> of_int nb * (pi * (bar_dia / 2) ^ 2))),
        (''description'', PStr ''Minimum tension reinforcement (IS 456 Cl. 26.5.1.1)'')])"
    by blast
  from beam_body_steel [OF run2] obtain dims' loads' mats' reinf' len' width' depth' cover' bar_dia'
      cg' sg' fck' fy' dl' ll' Mu' Areq' raw' nb' q'
    where b: "subscript (with_num_bars d v2) ''dimensions'' = Inr dims'"
      "subscript (with_num_bars d v2) ''loads'' = Inr loads'"
      "subscript (with_num_bars d v2) ''materials'' = Inr mats'"
      "subscript (with_num_bars d v2) ''reinforcement'' = Inr reinf'"
      "get_float dims' ''length'' (PInt 0) = Inr len'"
      "get_float dims' ''breadth'' (PInt 0) = Inr width'"
      "get_float dims' ''depth'' (PInt 0) = Inr depth'"
      "get_float reinf' ''cover'' (PInt 25) = Inr cover'"
      "get_float reinf' ''bar_diameter'' (PInt 16) = Inr bar_dia'"
      "dict_get mats' ''concrete_grade'' (PStr ''M20'') = Inr cg'"
      "dict_get mats' ''steel_grade'' (PStr ''Fe500'') = Inr sg'"
      "table_get CONCRETE_GRADES cg' 20 = Inr fck'"
      "table_get STEEL_GRADES sg' 500 = Inr fy'"
      "get_float loads' ''dead_load'' (PInt 0) = Inr dl'"
      "get_float loads' ''live_load'' (PInt 0) = Inr ll'"
      "calculate_design_moment len' (LOAD_FACTOR_DEAD * dl' + LOAD_FACTOR_LIVE * ll') [] = Inr Mu'"
      "calculate_required_area_of_steel (Mu' * 1000000) fck' fy' width' (depth' - cover' - bar_dia' / 2) = Inr Areq'"
      "dict_get reinf' ''num_bars'' (PInt 2) = Inr raw'" "int_of raw' = Inr nb'"
      "py_div 0.85 fy' = Inr q'"
      and flex2: "check_entry r2 ''flexural_strength'' = Some (PDict
       [(''required_steel'', PFloat (py_round Areq' 2)),
        (''provided_steel'', PFloat (py_round (of_int nb' * (pi * (bar_dia' / 2) ^ 2)) 2)),
        (''pass'', PBool (Areq' \<le> of_int nb' * (pi * (bar_dia' / 2) ^ 2))),
        (''description'', PStr ''Flexural reinforcement adequacy'')])"
      and min2: "check_entry r2 ''minimum_steel'' = Some (PDict
       [(''minimum_required'', PFloat (py_round (q' * width' * (depth' - cover' - bar_dia' / 2)) 2)),
        (''provided_steel'', PFloat (py_round (of_int nb' * (pi * (bar_dia' / 2) ^ 2)) 2)),
        (''pass'', PBool (q' * width' * (depth' - cover' - bar_dia' / 2) \<le> of_int nb' * (pi * (bar_dia' / 2) ^ 2))),
        (''description'', PStr ''Minimum tension reinforcement (IS 456 Cl. 26.5.1.1)'')])"
    by blast
  from a(4) a(18) obtain re where re: "subscript d ''reinforcement'' = Inr (PDict re)"
    and reinf: "reinf = PDict (AList.update ''num_bars'' v1 re)"
    by (blast dest: reinforcement_with_num_bars)
  from b(4) b(18) obtain re' where re': "subscript d ''reinforcement'' = Inr (PDict re')"
    and reinf': "reinf' = PDict (AList.update ''num_bars'' v2 re')"
    by (blast dest: reinforcement_with_num_bars)
  from re re' have same_re: "re' = re" by simp
  from a(1) b(1) have "dims' = dims" by (simp add: subscript_with_num_bars)
  moreover from a(2) b(2) have "loads' = loads" by (simp add: subscript_with_num_bars)
  moreover from a(3) b(3) have "mats' = mats" by (simp add: subscript_with_num_bars)
  ultimately have same: "len' = len" "width' = width" "depth' = depth" "cg' = cg" "sg' = sg"
      "dl' = dl" "ll' = ll"
    using a b by simp_all
  from a(8) b(8) a(9) b(9) reinf reinf' same_re have same_re_reads: "cover' = cover" "bar_dia' = bar_dia"
    by (simp_all add: get_float_update)
  from same a b have same_mat: "fck' = fck" "fy' = fy" by simp_all
  with same a b have same_q: "Mu' = Mu" "q' = q" by simp_all
  with same same_mat same_re_reads a(17) b(17) have same_req: "Areq' = Areq" by simp
  from a(18) a(19) reinf n1 have nb: "nb = n1" by (simp add: update_conv')
  from b(18) b(19) reinf' n2 have nb': "nb' = n2" by (simp add: update_conv')
  have area: "of_int n1 * (pi * (bar_dia / 2) ^ 2) \<le> of_int n2 * (pi * (bar_dia / 2) ^ 2)"
    using le by (intro mult_right_mono) simp_all
  from name show ?thesis
  proof
    assume flexural: "name = ''flexural_strength''"
    with c1 flex1 pass1 nb have "Areq \<le> of_int n1 * (pi * (bar_dia / 2) ^ 2)"
      by (auto simp add: pass_flag_def result_get_def)
    then have "Areq \<le> of_int n2 * (pi * (bar_dia / 2) ^ 2)"
      using area by (rule order_trans)
    with flexural c2 flex2 nb' same_req same_re_reads show ?thesis
      by (auto simp add: pass_flag_def result_get_def)
  next
    assume minimum: "name = ''minimum_steel''"
    with c1 min1 pass1 nb
    have "q * width * (depth - cover - bar_dia / 2) \<le> of_int n1 * (pi * (bar_dia / 2) ^ 2)"
      by (auto simp add: pass_flag_def result_get_def)
    then have "q * width * (depth - cover - bar_dia / 2) \<le> of_int n2 * (pi * (bar_dia / 2) ^ 2)"
      using area by (rule order_trans)
    with minimum c2 min2 nb' same same_re_reads same_q show ?thesis
      by (auto simp add: pass_flag_def result_get_def)
  qed
qed

lemma beam_checks_flexural:
  "map_of (beam_checks x1 x2 x3 x4 x5 x6 x7 x8 x9 x10 x11 x12) ''flexural_strength'' =
     Some (PDict
       [(''required_steel'', PFloat (py_round x1 2)),
        (''provided_steel'', PFloat (py_round x2 2)),
        (''pass'', PBool (x1 \<le> x2)),
        (''description'', PStr ''Flexural reinforcement adequacy'')])"
  by (simp add: beam_checks_def)

lemma tiny_beam_runs: "\<exists>r. check_beam_body tiny_beam = Inr r"
  by (simp add: check_beam_body_def tiny_beam_def get_float_def CONCRETE_GRADES_def
      STEEL_GRADES_def LOAD_FACTOR_DEAD_def LOAD_FACTOR_LIVE_def calculate_design_moment_def
      calculate_design_shear_def calculate_required_area_of_steel_def required_area_nmm_def
      py_div_def py_sqrt_def check_minimum_steel_def check_maximum_steel_def
      calculate_shear_capacity_def calculate_deflection_ratio_def all_pass_flags beam_flags Let_def)

subsection \<open>The load calculator\<close>

lemma dict_set_chain3:
  assumes "dict_set d0 k1 v1 = Inr d1" and "dict_set d1 k2 v2 = Inr d2" and "dict_set d2 k3 v3 = Inr d3"
  shows "\<exists>kvs. d0 = PDict kvs \<and>
     d3 = PDict (AList.update k3 v3 (AList.update k2 v2 (AList.update k1 v1 kvs)))"
  using assms by (cases d0) auto

lemma column_axial_shape:
  assumes "calculate_column_axial_load cd = Inr lr"
  shows "\<exists>DL LL WL. subscript lr ''total_dead_load'' = Inr (PFloat DL) \<and>
     subscript lr ''total_live_load'' = Inr (PFloat LL) \<and>
     subscript lr ''total_wind_load'' = Inr (PFloat WL) \<and>
     subscript lr ''critical_axial_load'' = Inr (PFloat (governing_combination DL LL WL))"
  using assms unfolding calculate_column_axial_load_def Let_def split_def
proof (elim ebind_InrE, goal_cases)
  case (1 x xa xb xc xd xe xf xg xh xi xj xk xl xm xn xo xp xq xr xs)
  from 1(21) show ?case
    unfolding governing_combination_def by auto
qed

lemma column_loads_shape:
  assumes "column_loads dd bd wd = Inr d'"
  shows "\<exists>lr DL LL WL moment. subscript d' ''load_calculations'' = Inr lr \<and>
     subscript lr ''total_dead_load'' = Inr (PFloat DL) \<and>
     subscript lr ''total_live_load'' = Inr (PFloat LL) \<and>
     subscript lr ''total_wind_load'' = Inr (PFloat WL) \<and>
     subscript d' ''loads'' = Inr (PDict
       [(''axial_load'', PFloatStr (governing_combination DL LL WL)), (''moment'', moment)])"
  using assms unfolding column_loads_def Let_def
proof (elim ebind_InrE, goal_cases)
  case (1 dims lr len wz tc wl wp crit d1 d2)
  from column_axial_shape [OF 1(2)] obtain DL LL WL
    where lr: "subscript lr ''total_dead_load'' = Inr (PFloat DL)"
      "subscript lr ''total_live_load'' = Inr (PFloat LL)"
      "subscript lr ''total_wind_load'' = Inr (PFloat WL)"
      "subscript lr ''critical_axial_load'' = Inr (PFloat (governing_combination DL LL WL))"
    by blast
  from 1(8) lr(4) have crit: "crit = governing_combination DL LL WL"
    by (simp add: get_num_def)
  from dict_set_chain3 [OF 1(9) 1(10) 1(11)] obtain kvs where d':
    "d' = PDict (AList.update ''wind_calculations'' wl (AList.update ''load_calculations'' lr
       (AList.update ''loads'' (PDict [(''axial_load'', PFloatStr crit),
          (''moment'', if 50 < wp * (len / 1000) ^ 2 / 6 then PFloatStr (wp * (len / 1000) ^ 2 / 6)
                       else PIntStr 50)]) kvs)))"
    by blast
  from d' have "subscript d' ''load_calculations'' = Inr lr"
    by (simp add: update_conv')
  moreover from d' crit have "\<exists>moment. subscript d' ''loads'' = Inr (PDict
       [(''axial_load'', PFloatStr (governing_combination DL LL WL)), (''moment'', moment)])"
    by (simp add: update_conv')
  ultimately show ?case using lr by blast
qed

lemma footing_loads_shape:
  assumes "footing_loads dd bd wd = Inr d'"
  shows "\<exists>kvs DL LL SW wm wc nf ta dpf lpf. dd = PDict kvs \<and>
     d' = PDict (AList.update ''wind_calculations'' wc (AList.update ''load_calculations''
       (PDict
          [(''dead_load_per_floor'', PFloat dpf),
           (''live_load_per_floor'', PFloat lpf),
           (''total_dead_load'', PFloat DL),
           (''total_live_load'', PFloat LL),
           (''footing_self_weight'', PFloat SW),
           (''num_floors'', nf),
           (''tributary_area'', ta)])
       (AList.update ''loads'' (PDict
          [(''vertical_load'', PFloatStr (DL + LL + SW)),
           (''dead_load'', PFloatStr DL),
           (''live_load'', PFloatStr LL),
           (''wind_moment'', PFloatStr wm)]) kvs)))"
  using assms unfolding footing_loads_def Let_def
proof (elim ebind_InrE, goal_cases)
  case 1
  from dict_set_chain3 [OF 1(22) 1(23) 1(24)] show ?case
    by blast
qed

lemma auto_footing:
  "auto_calculate_loads (PStr ''footing'') d = Inr d' \<Longrightarrow> \<exists>dw bd wd. footing_loads dw bd wd = Inr d'"
  unfolding auto_calculate_loads_def
  by (elim ebind_InrE) auto

lemma auto_column:
  "auto_calculate_loads (PStr ''column'') d = Inr d' \<Longrightarrow> \<exists>dw bd wd. column_loads dw bd wd = Inr d'"
  unfolding auto_calculate_loads_def
  by (elim ebind_InrE) auto

lemmas calculator_defs =
  auto_calculate_loads_def footing_loads_def column_loads_def beam_loads_def slab_loads_def
  calculate_column_axial_load_def calculate_beam_loads_def
  building_defaults_def wind_defaults_def calculate_live_load_def LIVE_LOADS_def
  calculate_superimposed_dead_load_def calculate_wind_load_def WIND_SPEEDS_def num_eq_def
  calculate_self_weight_def MATERIAL_DENSITIES_def get_float_def get_num_def py_div_def Let_def

lemma sidl_residential:
  "calculate_superimposed_dead_load ''slab'' (PStr ''residential'') True True =
     [(''floor_finish'', PFloat 1), (''ceiling_finish'', PFloat 0.5), (''waterproofing'', PFloat 0.3),
      (''partition_walls'', PFloat 1), (''mep_services'', PFloat 0.5), (''total_sidl'', PFloat 3.3),
      (''unit'', PStr kN_per_m2)]"
  by (simp add: calculate_superimposed_dead_load_def Let_def)

lemma live_residential:
  "calculate_live_load ''slab'' (PStr ''residential'') =
     Inr (PDict [(''live_load'', PFloat 2), (''unit'', PStr kN_per_m2)])"
  by (simp add: calculate_live_load_def LIVE_LOADS_def)

lemma column_self_weight:
  "calculate_self_weight ''column'' (PDict [(''length'', PInt 3), (''breadth'', PInt 150), (''depth'', PInt 150)])
     (PStr ''concrete'') =
   Inr (PDict [(''volume'', PFloat (27 / 400000)), (''total_self_weight'', PFloat (27 / 16000)),
               (''unit'', PStr ''kN'')])"
  by (simp add: calculate_self_weight_def get_float_def MATERIAL_DENSITIES_def Let_def)

lemma column_wind:
  "calculate_wind_load (3 / 1000) (PStr ''zone_2'') (PInt 2) 1 =
   Inr (PDict
          [(''basic_wind_speed'', PFloat 44),
           (''terrain_height_factor'', PFloat 1),
           (''topography_factor'', PFloat 1),
           (''design_wind_speed'', PFloat 44),
           (''wind_pressure'', PFloat 1.1616),
           (''unit'', PStr kN_per_m2),
           (''height'', PFloat (3 / 1000)),
           (''zone'', PStr ''zone_2'')])"
  by (simp add: calculate_wind_load_def WIND_SPEEDS_def num_eq_def Let_def)

lemma column_axial_runs:
  "\<exists>lr. calculate_column_axial_load column_scenario_data = Inr lr"
  unfolding calculate_column_axial_load_def column_scenario_data_def
  apply (simp add: column_self_weight column_wind building_defaults_def wind_defaults_def
      live_residential sidl_residential get_float_def get_num_def Let_def split_def)
  done

lemma column_scenario_auto_runs:
  "\<exists>d'. auto_calculate_loads (PStr ''column'') column_scenario = Inr d'"
proof -
  obtain lr where lr: "calculate_column_axial_load column_scenario_data = Inr lr"
    using column_axial_runs by blast
  from column_axial_shape [OF lr] obtain c where "subscript lr ''critical_axial_load'' = Inr (PFloat c)"
    by blast
  then have crit: "ebind (subscript lr ''critical_axial_load'') num_of = Inr c"
    by simp
  note lr' = lr [unfolded column_scenario_data_def building_defaults_def wind_defaults_def, simplified]
  show ?thesis
    unfolding auto_calculate_loads_def column_loads_def column_scenario_def
    by (simp add: building_defaults_def wind_defaults_def lr' crit column_wind get_float_def
        get_num_def Let_def)
qed

lemma footing_scenario_auto:
  "\<exists>d'. auto_calculate_loads (PStr ''footing'') footing_scenario = Inr d'"
  by (simp add: calculator_defs footing_scenario_def)

lemma footing_scenario_auto_runs:
  "\<exists>r. ebind (auto_calculate_loads (PStr ''footing'') footing_scenario) check_footing_body = Inr r"
  by (simp add: calculator_defs footing_scenario_def check_footing_body_def CONCRETE_GRADES_def
      STEEL_GRADES_def CONCRETE_DENSITY_def strip_required_steel_def one_way_shear_check_def
      py_sqrt_def all_pass_flags footing_flags has_flag_def)

subsection \<open>The footing checker's bearing check\<close>

lemma footing_body_bearing:
  assumes "check_footing_body d = Inr r"
  shows "\<exists>dims loads len br th ax sbc.
     subscript d ''dimensions'' = Inr dims \<and> subscript d ''loads'' = Inr loads \<and>
     get_float dims ''length'' (PInt 0) = Inr len \<and>
     get_float dims ''breadth'' (PInt 0) = Inr br \<and>
     get_float dims ''depth'' (PInt 0) = Inr th \<and>
     get_float loads ''axial_load'' (PInt 0) = Inr ax \<and>
     get_float loads ''safe_bearing_capacity'' (PInt 200) = Inr sbc \<and>
     len * 1000 * (br * 1000) / 1000000 \<noteq> 0 \<and>
     check_entry r ''bearing_pressure'' = Some (PDict
       [(''bearing_pressure'', PFloat (py_round
           ((ax + len * 1000 * (br * 1000) / 1000000 * th / 1000 * CONCRETE_DENSITY) /
            (len * 1000 * (br * 1000) / 1000000)) 2)),
        (''safe_bearing_capacity'', PFloat sbc),
        (''pass'', PBool
           ((ax + len * 1000 * (br * 1000) / 1000000 * th / 1000 * CONCRETE_DENSITY) /
            (len * 1000 * (br * 1000) / 1000000) \<le> sbc)),
        (''description'', PStr ''Soil bearing pressure check'')])"
  using assms unfolding check_footing_body_def Let_def split_def
proof (elim ebind_InrE, goal_cases)
  case (1 dims loads mats reinf len br th cover colsize bar_dia cg sg fck fy ax moment sbc bp selfp
      Mu_nmm Areq spacing bars q0 ows tvp sq op)
  from py_div_Inr [OF 1(18)] have bp: "len * 1000 * (br * 1000) / 1000000 \<noteq> 0"
    "bp = (ax + len * 1000 * (br * 1000) / 1000000 * th / 1000 * CONCRETE_DENSITY) /
            (len * 1000 * (br * 1000) / 1000000)"
    by simp_all
  from 1(29) have "check_entry r ''bearing_pressure'' = Some (PDict
       [(''bearing_pressure'', PFloat (py_round bp 2)),
        (''safe_bearing_capacity'', PFloat sbc),
        (''pass'', PBool (bp \<le> sbc)),
        (''description'', PStr ''Soil bearing pressure check'')])"
    by (auto simp: check_entry_def result_get_def footing_checks_def)
  with bp 1(1) 1(2) 1(5) 1(6) 1(7) 1(15) 1(17) show ?case by blast
qed

subsection \<open>The orchestrator\<close>





lemma check_compliance_returns:
  "(\<exists>r. check_compliance d = Inr r) = (\<exists>mt. ebind (dict_get d ''member_type'' (PStr [])) py_lower = Inr mt)"
  by (auto simp: check_compliance_def split: sum.splits)

lemma dict_set_get:
  "dict_set res k' v = Inr r \<Longrightarrow> \<forall>k. k \<noteq> k' \<longrightarrow> result_get r k = result_get res k"
  by (cases res) (auto simp: result_get_def update_conv')

lemma finish_result_keeps:
  assumes "finish_result mt dd res = Inr r"
    and "k \<noteq> ''recommendations''" "k \<noteq> ''load_calculations''" "k \<noteq> ''calculated_loads''"
  shows "result_get r k = result_get res k"
proof -
  from assms(1) obtain x r1
    where step1: "(if \<not> truthy x
                  then dict_set res ''recommendations'' (PList (recommendations mt))
                  else Inr res) = Inr r1"
      and step2: "(if has_key dd ''load_calculations''
                  then ebind (subscript dd ''load_calculations'') (\<lambda>load_calculations.
                       ebind (dict_set r1 ''load_calculations'' load_calculations) (\<lambda>result2.
                       ebind (subscript dd ''loads'') (\<lambda>loads.
                       dict_set result2 ''calculated_loads'' loads)))
                  else Inr r1) = Inr r"
    unfolding finish_result_def by (elim ebind_InrE)
  from step1 assms(2) have one: "result_get r1 k = result_get res k"
    by (auto split: if_splits dest!: dict_set_get)
  from step2 assms(3,4) have "result_get r k = result_get r1 k"
    by (auto split: if_splits elim!: ebind_InrE dest!: dict_set_get)
  with one show ?thesis by simp
qed

lemma checker_error_or_checks:
  assumes "chk \<in> set member_checkers"
  shows "result_get (chk d) ''error'' = None \<or> result_get (chk d) ''checks'' = None"
proof -
  have *: "result_get (catch_all p m b) ''error'' = None \<or> result_get (catch_all p m b) ''checks'' = None"
    if "\<And>r. b = Inr r \<Longrightarrow> full_result m r" for p m b
  proof (cases b)
    case (Inl e)
    then show ?thesis by (simp add: catch_all_def error_result_def result_get_def)
  next
    case (Inr r)
    with that [OF Inr] show ?thesis by (simp add: catch_all_def full_result_no_error)
  qed
  from assms consider "chk = check_beam_compliance" | "chk = check_column_compliance"
    | "chk = check_slab_compliance" | "chk = check_footing_compliance"
    by (auto simp: member_checkers_def)
  then show ?thesis
  proof cases
    case 1 then show ?thesis unfolding check_beam_compliance_def by (auto intro!: * beam_body_full)
  next
    case 2 then show ?thesis unfolding check_column_compliance_def by (auto intro!: * column_body_full)
  next
    case 3 then show ?thesis unfolding check_slab_compliance_def by (auto intro!: * slab_body_full)
  next
    case 4 then show ?thesis unfolding check_footing_compliance_def by (auto intro!: * footing_body_full)
  qed
qed

lemma dispatch_error_or_checks:
  assumes "dispatch mt dd = Inr r"
  shows "result_get r ''error'' = None \<or> result_get r ''checks'' = None"
proof -
  have fin: "result_get r ''error'' = None \<or> result_get r ''checks'' = None"
    if "finish_result mt dd (chk dd) = Inr r" "chk \<in> set member_checkers" for chk
    using checker_error_or_checks [OF that(2), of dd] finish_result_keeps [OF that(1)]
    by auto
  consider "mt = PStr ''beam''" | "mt = PStr ''column''" | "mt = PStr ''slab''" | "mt = PStr ''footing''"
    | "mt \<noteq> PStr ''beam''" "mt \<noteq> PStr ''column''" "mt \<noteq> PStr ''slab''" "mt \<noteq> PStr ''footing''"
    by blast
  then show ?thesis
  proof cases
    case 1
    with assms have "finish_result mt dd (check_beam_compliance dd) = Inr r"
      by (simp add: dispatch_def)
    then show ?thesis by (rule fin) (simp add: member_checkers_def)
  next
    case 2
    with assms have "finish_result mt dd (check_column_compliance dd) = Inr r"
      by (simp add: dispatch_def)
    then show ?thesis by (rule fin) (simp add: member_checkers_def)
  next
    case 3
    with assms have "finish_result mt dd (check_slab_compliance dd) = Inr r"
      by (simp add: dispatch_def)
    then show ?thesis by (rule fin) (simp add: member_checkers_def)
  next
    case 4
    with assms have "finish_result mt dd (check_footing_compliance dd) = Inr r"
      by (simp add: dispatch_def)
    then show ?thesis by (rule fin) (simp add: member_checkers_def)
  next
    case 5
    with assms have "r = unsupported_result mt"
      by (simp add: dispatch_def)
    then show ?thesis by (simp add: unsupported_result_def result_get_def)
  qed
qed

lemma caught_faults_carry_no_checks:
  assumes "check_compliance d = Inr r"
  shows "result_get r ''error'' = None \<or> result_get r ''checks'' = None"
proof (cases "ebind (dict_get d ''member_type'' (PStr [])) py_lower")
  case (Inl e)
  with assms show ?thesis by (simp add: check_compliance_def)
next
  case (Inr mt)
  show ?thesis
  proof (cases "ebind (resolve_loads mt d) (dispatch mt)")
    case (Inl e)
    with Inr assms show ?thesis by (auto simp: check_compliance_def result_get_def)
  next
    case inner: (Inr r')
    with Inr assms have "r' = r" by (simp add: check_compliance_def)
    with inner show ?thesis by (auto elim!: ebind_InrE dest: dispatch_error_or_checks)
  qed
qed

section \<open>Claims\<close>

text \<open>
  C1. For every design input on which a member checker (beam, column, slab or footing)
  returns a result without an \<open>error\<close> field, the result has a \<open>checks\<close> mapping, its
  \<open>overall_compliance\<close> is the logical AND of the \<open>pass\<close> field of every check in that
  mapping, and its \<open>status\<close> is \<open>PASS\<close> exactly when \<open>overall_compliance\<close> is true.
\<close>

theorem overall_compliance_is_conjunction:
  assumes "chk \<in> set member_checkers" and "result_get (chk d) ''error'' = None"
  shows "\<exists>checks. result_get (chk d) ''checks'' = Some (PDict checks) \<and>
           result_get (chk d) ''overall_compliance'' =
             Some (PBool (list_all (\<lambda>(name, c). pass_flag c) checks)) \<and>
           (result_get (chk d) ''status'' = Some (PStr ''PASS'')) =
             list_all (\<lambda>(name, c). pass_flag c) checks"
proof -
  from assms(1) consider "chk = check_beam_compliance" | "chk = check_column_compliance"
    | "chk = check_slab_compliance" | "chk = check_footing_compliance"
    by (auto simp: member_checkers_def)
  then have "consistent_result (chk d)"
  proof cases
    case 1
    with assms(2) obtain r where "check_beam_body d = Inr r"
      unfolding check_beam_compliance_def by (blast dest: catch_all_no_error)
    with 1 show ?thesis
      by (simp add: check_beam_compliance_def catch_all_def beam_body_full [THEN full_result_consistent])
  next
    case 2
    with assms(2) obtain r where "check_column_body d = Inr r"
      unfolding check_column_compliance_def by (blast dest: catch_all_no_error)
    with 2 show ?thesis
      by (simp add: check_column_compliance_def catch_all_def column_body_full [THEN full_result_consistent])
  next
    case 3
    with assms(2) obtain r where "check_slab_body d = Inr r"
      unfolding check_slab_compliance_def by (blast dest: catch_all_no_error)
    with 3 show ?thesis
      by (simp add: check_slab_compliance_def catch_all_def slab_body_full [THEN full_result_consistent])
  next
    case 4
    with assms(2) obtain r where "check_footing_body d = Inr r"
      unfolding check_footing_compliance_def by (blast dest: catch_all_no_error)
    with 4 show ?thesis
      by (simp add: check_footing_compliance_def catch_all_def footing_body_full [THEN full_result_consistent])
  qed
  then show ?thesis by (simp add: consistent_result_def)
qed

theorem overall_compliance_is_conjunction_witness:
  "check_beam_compliance \<in> set member_checkers \<and>
   result_get (check_beam_compliance beam_scenario) ''error'' = None \<and>
   (\<exists>checks. result_get (check_beam_compliance beam_scenario) ''checks'' = Some (PDict checks) \<and>
      result_get (check_beam_compliance beam_scenario) ''overall_compliance'' =
        Some (PBool (list_all (\<lambda>(name, c). pass_flag c) checks)) \<and>
      (result_get (check_beam_compliance beam_scenario) ''status'' = Some (PStr ''PASS'')) =
        list_all (\<lambda>(name, c). pass_flag c) checks)"
proof -
  have member: "check_beam_compliance \<in> set member_checkers"
    by (simp add: member_checkers_def)
  obtain r where r: "check_beam_body beam_scenario = Inr r"
    using beam_scenario_runs by blast
  then have no_error: "result_get (check_beam_compliance beam_scenario) ''error'' = None"
    by (simp add: check_beam_compliance_def catch_all_def beam_body_full [THEN full_result_no_error])
  from member no_error overall_compliance_is_conjunction [OF member no_error]
  show ?thesis by blast
qed

text \<open>
  C5. For every input on which the column checker returns its checks, the
  \<open>tie_reinforcement\<close> check has \<open>pass = True\<close>: the check carries a tie diameter and a
  tie spacing, and its \<open>pass\<close> field is the constant \<open>True\<close>, compared with nothing.
\<close>

theorem tie_reinforcement_always_passes:
  assumes "result_get (check_column_compliance d) ''error'' = None"
  shows "\<exists>tie_dia tie_spacing.
     check_entry (check_column_compliance d) ''tie_reinforcement'' = Some (PDict
       [(''minimum_tie_diameter'', tie_dia),
        (''maximum_tie_spacing'', tie_spacing),
        (''description'', PStr ''Tie reinforcement requirements (IS 456 Cl. 26.5.3.2)''),
        (''pass'', PBool True)])"
proof -
  from assms obtain r where r: "check_column_body d = Inr r"
    unfolding check_column_compliance_def by (blast dest: catch_all_no_error)
  then have "check_column_compliance d = r"
    by (simp add: check_column_compliance_def catch_all_def)
  with column_body_tie [OF r] show ?thesis by simp
qed

theorem tie_reinforcement_always_passes_witness:
  "result_get (check_column_compliance column_scenario) ''error'' = None \<and>
   (\<exists>tie_dia tie_spacing.
     check_entry (check_column_compliance column_scenario) ''tie_reinforcement'' = Some (PDict
       [(''minimum_tie_diameter'', tie_dia),
        (''maximum_tie_spacing'', tie_spacing),
        (''description'', PStr ''Tie reinforcement requirements (IS 456 Cl. 26.5.3.2)''),
        (''pass'', PBool True)]))"
proof -
  obtain r where r: "check_column_body column_scenario = Inr r"
    using column_scenario_runs by blast
  then have no_error: "result_get (check_column_compliance column_scenario) ''error'' = None"
    by (simp add: check_column_compliance_def catch_all_def column_body_full [THEN full_result_no_error])
  from no_error tie_reinforcement_always_passes [OF no_error] show ?thesis by blast
qed

text \<open>
  C6. For two beam-checker inputs that differ only in the number of bars, the second
  with at least as many bars as the first, each steel-adequacy check (provided steel
  against a required minimum: \<open>flexural_strength\<close> and \<open>minimum_steel\<close>) that passes on
  the first input passes on the second.
\<close>

theorem steel_adequacy_monotone:
  assumes "int_of v1 = Inr n1" and "int_of v2 = Inr n2" and "n1 \<le> n2"
    and "name = ''flexural_strength'' \<or> name = ''minimum_steel''"
    and "check_entry (check_beam_compliance (with_num_bars d v1)) name = Some c1"
    and "check_entry (check_beam_compliance (with_num_bars d v2)) name = Some c2"
    and "pass_flag c1"
  shows "pass_flag c2"
proof -
  from assms(5) obtain r1 where r1: "check_beam_body (with_num_bars d v1) = Inr r1"
    unfolding check_beam_compliance_def by (blast dest: catch_all_entry)
  from assms(6) obtain r2 where r2: "check_beam_body (with_num_bars d v2) = Inr r2"
    unfolding check_beam_compliance_def by (blast dest: catch_all_entry)
  from assms(5) r1 have c1: "check_entry r1 name = Some c1"
    by (simp add: check_beam_compliance_def catch_all_Inr)
  from assms(6) r2 have c2: "check_entry r2 name = Some c2"
    by (simp add: check_beam_compliance_def catch_all_Inr)
  from assms(1-3) r1 r2 assms(4) c1 c2 assms(7) show ?thesis
    by (rule beam_steel_monotone)
qed

theorem steel_adequacy_monotone_witness:
  "int_of (PInt 2) = Inr 2 \<and> int_of (PInt 4) = Inr 4 \<and> (2::int) \<le> 4 \<and>
   (\<exists>c1 c2.
      check_entry (check_beam_compliance (with_num_bars beam_scenario (PInt 2))) ''flexural_strength'' = Some c1 \<and>
      check_entry (check_beam_compliance (with_num_bars beam_scenario (PInt 4))) ''flexural_strength'' = Some c2 \<and>
      pass_flag c1 \<and> pass_flag c2)"
proof -
  have two: "\<exists>c. check_entry (check_beam_compliance (with_num_bars beam_scenario (PInt 2)))
      ''flexural_strength'' = Some c \<and> pass_flag c"
    using pi_ge_two
    by (simp add: check_beam_compliance_def catch_all_def check_beam_body_def with_num_bars_def
        beam_scenario_def get_float_def CONCRETE_GRADES_def
        STEEL_GRADES_def LOAD_FACTOR_DEAD_def LOAD_FACTOR_LIVE_def calculate_design_moment_def
        calculate_design_shear_def calculate_required_area_of_steel_def required_area_nmm_def
        py_div_def py_sqrt_def check_minimum_steel_def check_maximum_steel_def
        calculate_shear_capacity_def calculate_deflection_ratio_def all_pass_flags beam_flags Let_def
        check_entry_def result_get_def pass_flag_def beam_checks_flexural)
  have four: "\<exists>c. check_entry (check_beam_compliance (with_num_bars beam_scenario (PInt 4)))
      ''flexural_strength'' = Some c"
    by (simp add: check_beam_compliance_def catch_all_def check_beam_body_def with_num_bars_def
        beam_scenario_def get_float_def CONCRETE_GRADES_def
        STEEL_GRADES_def LOAD_FACTOR_DEAD_def LOAD_FACTOR_LIVE_def calculate_design_moment_def
        calculate_design_shear_def calculate_required_area_of_steel_def required_area_nmm_def
        py_div_def py_sqrt_def check_minimum_steel_def check_maximum_steel_def
        calculate_shear_capacity_def calculate_deflection_ratio_def all_pass_flags beam_flags Let_def
        check_entry_def result_get_def beam_checks_flexural)
  from two obtain c1 where c1: "check_entry (check_beam_compliance (with_num_bars beam_scenario (PInt 2)))
      ''flexural_strength'' = Some c1" and p1: "pass_flag c1" by blast
  from four obtain c2 where c2: "check_entry (check_beam_compliance (with_num_bars beam_scenario (PInt 4)))
      ''flexural_strength'' = Some c2" by blast
  have i2: "int_of (PInt 2) = Inr 2" and i4: "int_of (PInt 4) = Inr 4" and le: "(2::int) \<le> 4"
    by simp_all
  have "pass_flag c2"
    using steel_adequacy_monotone [OF i2 i4 le _ c1 c2 p1] by simp
  with c1 c2 p1 i2 i4 le show ?thesis by blast
qed

text \<open>
  C7. For every slab input \<open>d\<close> on which the checker returns its checks, with \<open>L\<close> and
  \<open>B\<close> the length and breadth that the checker reads from the dimensions of \<open>d\<close> and
  converts from m to mm (\<open>L = len * 1000\<close>, \<open>B = br * 1000\<close>, the values that it also
  reports in the design summary): the slab type is \<open>one_way\<close> exactly when
  \<open>max(L,B)/min(L,B) \<ge> 2\<close> and \<open>two_way\<close> otherwise, and the \<open>distribution_steel\<close> check
  is in the checks mapping exactly when the slab type is \<open>one_way\<close>. On the two slabs of
  scenario D, 5 m by 2 m gives \<open>one_way\<close> with the check present, and 3 m by 2 m gives
  \<open>two_way\<close> with the check absent.
\<close>

theorem slab_type_by_aspect_ratio:
  assumes "result_get (check_slab_compliance d) ''error'' = None"
  shows "\<exists>dims len br.
     subscript d ''dimensions'' = Inr dims \<and>
     get_float dims ''length'' (PInt 0) = Inr len \<and>
     get_float dims ''breadth'' (PInt 0) = Inr br \<and>
     summary_get (check_slab_compliance d) ''length'' = Some (PFloat (len * 1000)) \<and>
     summary_get (check_slab_compliance d) ''breadth'' = Some (PFloat (br * 1000)) \<and>
     min (len * 1000) (br * 1000) \<noteq> 0 \<and>
     summary_get (check_slab_compliance d) ''slab_type'' =
       Some (PStr (if 2 \<le> max (len * 1000) (br * 1000) / min (len * 1000) (br * 1000)
                   then ''one_way'' else ''two_way'')) \<and>
     (check_entry (check_slab_compliance d) ''distribution_steel'' \<noteq> None) =
       (2 \<le> max (len * 1000) (br * 1000) / min (len * 1000) (br * 1000))"
proof -
  from assms obtain r where r: "check_slab_body d = Inr r"
    unfolding check_slab_compliance_def by (blast dest: catch_all_no_error)
  then have "check_slab_compliance d = r"
    by (simp add: check_slab_compliance_def catch_all_def)
  with slab_body_type [OF r] show ?thesis by simp
qed

theorem slab_type_by_aspect_ratio_witness:
  "result_get (check_slab_compliance slab_one_way) ''error'' = None \<and>
   (\<exists>dims. subscript slab_one_way ''dimensions'' = Inr dims \<and>
      get_float dims ''length'' (PInt 0) = Inr 5 \<and>
      get_float dims ''breadth'' (PInt 0) = Inr 2) \<and>
   max (5 * 1000) (2 * 1000) / min (5 * 1000) (2 * 1000) = (5 / 2 :: real) \<and>
   summary_get (check_slab_compliance slab_one_way) ''slab_type'' = Some (PStr ''one_way'') \<and>
   check_entry (check_slab_compliance slab_one_way) ''distribution_steel'' \<noteq> None \<and>
   result_get (check_slab_compliance slab_two_way) ''error'' = None \<and>
   (\<exists>dims. subscript slab_two_way ''dimensions'' = Inr dims \<and>
      get_float dims ''length'' (PInt 0) = Inr 3 \<and>
      get_float dims ''breadth'' (PInt 0) = Inr 2) \<and>
   max (3 * 1000) (2 * 1000) / min (3 * 1000) (2 * 1000) = (3 / 2 :: real) \<and>
   summary_get (check_slab_compliance slab_two_way) ''slab_type'' = Some (PStr ''two_way'') \<and>
   check_entry (check_slab_compliance slab_two_way) ''distribution_steel'' = None"
proof -
  obtain r1 where r1: "check_slab_body slab_one_way = Inr r1"
    using slab_one_way_runs by blast
  then have no_error1: "result_get (check_slab_compliance slab_one_way) ''error'' = None"
    by (simp add: check_slab_compliance_def catch_all_def slab_body_full [THEN full_result_no_error])
  from slab_type_by_aspect_ratio [OF no_error1] obtain dims1 len1 br1
    where one: "subscript slab_one_way ''dimensions'' = Inr dims1"
      "get_float dims1 ''length'' (PInt 0) = Inr len1"
      "get_float dims1 ''breadth'' (PInt 0) = Inr br1"
      "summary_get (check_slab_compliance slab_one_way) ''slab_type'' =
         Some (PStr (if 2 \<le> max (len1 * 1000) (br1 * 1000) / min (len1 * 1000) (br1 * 1000)
                     then ''one_way'' else ''two_way''))"
      "(check_entry (check_slab_compliance slab_one_way) ''distribution_steel'' \<noteq> None) =
         (2 \<le> max (len1 * 1000) (br1 * 1000) / min (len1 * 1000) (br1 * 1000))"
    by blast
  from one(1-3) have reads1: "len1 = 5" "br1 = 2"
    by (auto simp: slab_one_way_def get_float_def)
  from one(1-3) reads1
  have in1: "\<exists>dims. subscript slab_one_way ''dimensions'' = Inr dims \<and>
      get_float dims ''length'' (PInt 0) = Inr 5 \<and>
      get_float dims ''breadth'' (PInt 0) = Inr 2"
    by blast
  from one(4) reads1
  have type1: "summary_get (check_slab_compliance slab_one_way) ''slab_type'' = Some (PStr ''one_way'')"
    by simp
  from one(5) reads1
  have dist1: "check_entry (check_slab_compliance slab_one_way) ''distribution_steel'' \<noteq> None"
    by simp
  obtain r2 where r2: "check_slab_body slab_two_way = Inr r2"
    using slab_two_way_runs by blast
  then have no_error2: "result_get (check_slab_compliance slab_two_way) ''error'' = None"
    by (simp add: check_slab_compliance_def catch_all_def slab_body_full [THEN full_result_no_error])
  from slab_type_by_aspect_ratio [OF no_error2] obtain dims2 len2 br2
    where two: "subscript slab_two_way ''dimensions'' = Inr dims2"
      "get_float dims2 ''length'' (PInt 0) = Inr len2"
      "get_float dims2 ''breadth'' (PInt 0) = Inr br2"
      "summary_get (check_slab_compliance slab_two_way) ''slab_type'' =
         Some (PStr (if 2 \<le> max (len2 * 1000) (br2 * 1000) / min (len2 * 1000) (br2 * 1000)
                     then ''one_way'' else ''two_way''))"
      "(check_entry (check_slab_compliance slab_two_way) ''distribution_steel'' \<noteq> None) =
         (2 \<le> max (len2 * 1000) (br2 * 1000) / min (len2 * 1000) (br2 * 1000))"
    by blast
  from two(1-3) have reads2: "len2 = 3" "br2 = 2"
    by (auto simp: slab_two_way_def get_float_def)
  from two(1-3) reads2
  have in2: "\<exists>dims. subscript slab_two_way ''dimensions'' = Inr dims \<and>
      get_float dims ''length'' (PInt 0) = Inr 3 \<and>
      get_float dims ''breadth'' (PInt 0) = Inr 2"
    by blast
  from two(4) reads2
  have type2: "summary_get (check_slab_compliance slab_two_way) ''slab_type'' = Some (PStr ''two_way'')"
    by simp
  from two(5) reads2
  have dist2: "check_entry (check_slab_compliance slab_two_way) ''distribution_steel'' = None"
    by simp
  have ratio1: "max (5 * 1000) (2 * 1000) / min (5 * 1000) (2 * 1000) = (5 / 2 :: real)"
    and ratio2: "max (3 * 1000) (2 * 1000) / min (3 * 1000) (2 * 1000) = (3 / 2 :: real)"
    by simp_all
  from no_error1 in1 ratio1 type1 dist1 no_error2 in2 ratio2 type2 dist2 show ?thesis
    by (intro conjI)
qed

text \<open>
  C9. \<open>calculate_required_area_of_steel\<close> takes a moment below 1000 as kNm and
  multiplies it by \<open>10^6\<close> before computing the steel area, and uses a moment of 1000 or
  more unchanged as Nmm. So a moment \<open>m\<close> in kNm with \<open>0.001 \<le> m < 1000\<close> and the same
  moment \<open>m * 10^6\<close> in Nmm give the same result. The beam checker passes its design
  moment \<open>Mu\<close> (kNm) already converted to \<open>Mu * 10^6\<close> Nmm, together with the strengths
  of the grades, the breadth and the effective depth \<open>depth - cover - bar_diameter / 2\<close>
  that it reads from the design record; the required steel \<open>Areq\<close> of its
  \<open>flexural_strength\<close> check is that of \<open>Mu * 10^6\<close> Nmm on this section when
  \<open>Mu * 10^6 \<ge> 1000\<close>, and the moment is converted a second time, so that \<open>Areq\<close> is
  that of \<open>Mu * 10^12\<close> Nmm, whenever \<open>Mu * 10^6 < 1000\<close>.
\<close>

theorem moment_unit_guess:
  "(m < 1000 \<longrightarrow>
      calculate_required_area_of_steel m fck fy b dd = required_area_nmm (m * 1000000) fck fy b dd) \<and>
   (1000 \<le> m \<longrightarrow>
      calculate_required_area_of_steel m fck fy b dd = required_area_nmm m fck fy b dd) \<and>
   (1 / 1000 \<le> m \<and> m < 1000 \<longrightarrow>
      calculate_required_area_of_steel m fck fy b dd =
      calculate_required_area_of_steel (m * 1000000) fck fy b dd) \<and>
   (check_beam_body d = Inr r \<longrightarrow>
      (\<exists>dims loads mats reinf len width depth cover bar_dia cg sg fck' fy' dl ll Mu Areq raw nb.
         subscript d ''dimensions'' = Inr dims \<and> subscript d ''loads'' = Inr loads \<and>
         subscript d ''materials'' = Inr mats \<and> subscript d ''reinforcement'' = Inr reinf \<and>
         get_float dims ''length'' (PInt 0) = Inr len \<and>
         get_float dims ''breadth'' (PInt 0) = Inr width \<and>
         get_float dims ''depth'' (PInt 0) = Inr depth \<and>
         get_float reinf ''cover'' (PInt 25) = Inr cover \<and>
         get_float reinf ''bar_diameter'' (PInt 16) = Inr bar_dia \<and>
         dict_get mats ''concrete_grade'' (PStr ''M20'') = Inr cg \<and>
         dict_get mats ''steel_grade'' (PStr ''Fe500'') = Inr sg \<and>
         table_get CONCRETE_GRADES cg 20 = Inr fck' \<and>
         table_get STEEL_GRADES sg 500 = Inr fy' \<and>
         get_float loads ''dead_load'' (PInt 0) = Inr dl \<and>
         get_float loads ''live_load'' (PInt 0) = Inr ll \<and>
         calculate_design_moment len (LOAD_FACTOR_DEAD * dl + LOAD_FACTOR_LIVE * ll) [] = Inr Mu \<and>
         calculate_required_area_of_steel (Mu * 1000000) fck' fy' width (depth - cover - bar_dia / 2) =
           Inr Areq \<and>
         dict_get reinf ''num_bars'' (PInt 2) = Inr raw \<and> int_of raw = Inr nb \<and>
         check_entry r ''flexural_strength'' = Some (PDict
           [(''required_steel'', PFloat (py_round Areq 2)),
            (''provided_steel'', PFloat (py_round (of_int nb * (pi * (bar_dia / 2) ^ 2)) 2)),
            (''pass'', PBool (Areq \<le> of_int nb * (pi * (bar_dia / 2) ^ 2))),
            (''description'', PStr ''Flexural reinforcement adequacy'')]) \<and>
         (1000 \<le> Mu * 1000000 \<longrightarrow>
            required_area_nmm (Mu * 1000000) fck' fy' width (depth - cover - bar_dia / 2) =
              Inr Areq) \<and>
         (Mu * 1000000 < 1000 \<longrightarrow>
            required_area_nmm (Mu * 1000000 * 1000000) fck' fy' width (depth - cover - bar_dia / 2) =
              Inr Areq)))"
proof (intro conjI impI)
  assume "m < 1000"
  then show "calculate_required_area_of_steel m fck fy b dd = required_area_nmm (m * 1000000) fck fy b dd"
    by (simp add: calculate_required_area_of_steel_def)
next
  assume "1000 \<le> m"
  then show "calculate_required_area_of_steel m fck fy b dd = required_area_nmm m fck fy b dd"
    by (simp add: calculate_required_area_of_steel_def)
next
  assume "1 / 1000 \<le> m \<and> m < 1000"
  then show "calculate_required_area_of_steel m fck fy b dd =
      calculate_required_area_of_steel (m * 1000000) fck fy b dd"
    by (simp add: calculate_required_area_of_steel_def)
next
  assume run: "check_beam_body d = Inr r"
  from beam_body_steel [OF run] obtain dims loads mats reinf len width depth cover bar_dia cg sg
      fck' fy' dl ll Mu Areq raw nb
    where facts: "subscript d ''dimensions'' = Inr dims" "subscript d ''loads'' = Inr loads"
      "subscript d ''materials'' = Inr mats" "subscript d ''reinforcement'' = Inr reinf"
      "get_float dims ''length'' (PInt 0) = Inr len"
      "get_float dims ''breadth'' (PInt 0) = Inr width"
      "get_float dims ''depth'' (PInt 0) = Inr depth"
      "get_float reinf ''cover'' (PInt 25) = Inr cover"
      "get_float reinf ''bar_diameter'' (PInt 16) = Inr bar_dia"
      "dict_get mats ''concrete_grade'' (PStr ''M20'') = Inr cg"
      "dict_get mats ''steel_grade'' (PStr ''Fe500'') = Inr sg"
      "table_get CONCRETE_GRADES cg 20 = Inr fck'"
      "table_get STEEL_GRADES sg 500 = Inr fy'"
      "get_float loads ''dead_load'' (PInt 0) = Inr dl"
      "get_float loads ''live_load'' (PInt 0) = Inr ll"
      "calculate_design_moment len (LOAD_FACTOR_DEAD * dl + LOAD_FACTOR_LIVE * ll) [] = Inr Mu"
      "calculate_required_area_of_steel (Mu * 1000000) fck' fy' width (depth - cover - bar_dia / 2) =
         Inr Areq"
      "dict_get reinf ''num_bars'' (PInt 2) = Inr raw" "int_of raw = Inr nb"
      "check_entry r ''flexural_strength'' = Some (PDict
           [(''required_steel'', PFloat (py_round Areq 2)),
            (''provided_steel'', PFloat (py_round (of_int nb * (pi * (bar_dia / 2) ^ 2)) 2)),
            (''pass'', PBool (Areq \<le> of_int nb * (pi * (bar_dia / 2) ^ 2))),
            (''description'', PStr ''Flexural reinforcement adequacy'')])"
    by blast
  from facts(17) have once: "1000 \<le> Mu * 1000000 \<longrightarrow>
      required_area_nmm (Mu * 1000000) fck' fy' width (depth - cover - bar_dia / 2) = Inr Areq"
    by (auto simp add: calculate_required_area_of_steel_def split: if_splits)
  from facts(17) have twice: "Mu * 1000000 < 1000 \<longrightarrow>
      required_area_nmm (Mu * 1000000 * 1000000) fck' fy' width (depth - cover - bar_dia / 2) =
        Inr Areq"
    by (auto simp add: calculate_required_area_of_steel_def split: if_splits)
  from facts once twice
  show "\<exists>dims loads mats reinf len width depth cover bar_dia cg sg fck' fy' dl ll Mu Areq raw nb.
         subscript d ''dimensions'' = Inr dims \<and> subscript d ''loads'' = Inr loads \<and>
         subscript d ''materials'' = Inr mats \<and> subscript d ''reinforcement'' = Inr reinf \<and>
         get_float dims ''length'' (PInt 0) = Inr len \<and>
         get_float dims ''breadth'' (PInt 0) = Inr width \<and>
         get_float dims ''depth'' (PInt 0) = Inr depth \<and>
         get_float reinf ''cover'' (PInt 25) = Inr cover \<and>
         get_float reinf ''bar_diameter'' (PInt 16) = Inr bar_dia \<and>
         dict_get mats ''concrete_grade'' (PStr ''M20'') = Inr cg \<and>
         dict_get mats ''steel_grade'' (PStr ''Fe500'') = Inr sg \<and>
         table_get CONCRETE_GRADES cg 20 = Inr fck' \<and>
         table_get STEEL_GRADES sg 500 = Inr fy' \<and>
         get_float loads ''dead_load'' (PInt 0) = Inr dl \<and>
         get_float loads ''live_load'' (PInt 0) = Inr ll \<and>
         calculate_design_moment len (LOAD_FACTOR_DEAD * dl + LOAD_FACTOR_LIVE * ll) [] = Inr Mu \<and>
         calculate_required_area_of_steel (Mu * 1000000) fck' fy' width (depth - cover - bar_dia / 2) =
           Inr Areq \<and>
         dict_get reinf ''num_bars'' (PInt 2) = Inr raw \<and> int_of raw = Inr nb \<and>
         check_entry r ''flexural_strength'' = Some (PDict
           [(''required_steel'', PFloat (py_round Areq 2)),
            (''provided_steel'', PFloat (py_round (of_int nb * (pi * (bar_dia / 2) ^ 2)) 2)),
            (''pass'', PBool (Areq \<le> of_int nb * (pi * (bar_dia / 2) ^ 2))),
            (''description'', PStr ''Flexural reinforcement adequacy'')]) \<and>
         (1000 \<le> Mu * 1000000 \<longrightarrow>
            required_area_nmm (Mu * 1000000) fck' fy' width (depth - cover - bar_dia / 2) =
              Inr Areq) \<and>
         (Mu * 1000000 < 1000 \<longrightarrow>
            required_area_nmm (Mu * 1000000 * 1000000) fck' fy' width (depth - cover - bar_dia / 2) =
              Inr Areq)"
    by blast
qed

theorem moment_unit_guess_witness:
  "calculate_required_area_of_steel 500 20 415 300 567 = required_area_nmm (500 * 1000000) 20 415 300 567 \<and>
   calculate_required_area_of_steel 2000 20 415 300 567 = required_area_nmm 2000 20 415 300 567 \<and>
   calculate_required_area_of_steel 500 20 415 300 567 =
     calculate_required_area_of_steel (500 * 1000000) 20 415 300 567 \<and>
   (\<exists>r Areq.
      check_beam_body tiny_beam = Inr r \<and>
      calculate_design_moment 1 (LOAD_FACTOR_DEAD * 0.004 + LOAD_FACTOR_LIVE * 0) [] = Inr (3 / 4000) \<and>
      3 / 4000 * 1000000 < (1000 :: real) \<and>
      table_get CONCRETE_GRADES (PStr ''M20'') 20 = Inr 20 \<and>
      table_get STEEL_GRADES (PStr ''Fe415'') 500 = Inr 415 \<and>
      600 - 25 - 16 / 2 = (567 :: real) \<and>
      calculate_required_area_of_steel (3 / 4000 * 1000000) 20 415 300 567 = Inr Areq \<and>
      required_area_nmm (3 / 4000 * 1000000 * 1000000) 20 415 300 567 = Inr Areq \<and>
      check_entry r ''flexural_strength'' = Some (PDict
        [(''required_steel'', PFloat (py_round Areq 2)),
         (''provided_steel'', PFloat (py_round (4 * (pi * (16 / 2) ^ 2)) 2)),
         (''pass'', PBool (Areq \<le> 4 * (pi * (16 / 2) ^ 2))),
         (''description'', PStr ''Flexural reinforcement adequacy'')])) \<and>
   (\<exists>r Areq.
      check_beam_body beam_scenario = Inr r \<and>
      calculate_design_moment 6 (LOAD_FACTOR_DEAD * 2.5 + LOAD_FACTOR_LIVE * 3) [] = Inr (297 / 8) \<and>
      (1000 :: real) \<le> 297 / 8 * 1000000 \<and>
      calculate_required_area_of_steel (297 / 8 * 1000000) 20 415 300 567 = Inr Areq \<and>
      required_area_nmm (297 / 8 * 1000000) 20 415 300 567 = Inr Areq \<and>
      check_entry r ''flexural_strength'' = Some (PDict
        [(''required_steel'', PFloat (py_round Areq 2)),
         (''provided_steel'', PFloat (py_round (4 * (pi * (16 / 2) ^ 2)) 2)),
         (''pass'', PBool (Areq \<le> 4 * (pi * (16 / 2) ^ 2))),
         (''description'', PStr ''Flexural reinforcement adequacy'')]))"
proof -
  obtain r where r: "check_beam_body tiny_beam = Inr r"
    using tiny_beam_runs by blast
  have lt: "(500::real) < 1000" and ge: "(1000::real) \<le> 2000"
    and range: "1 / 1000 \<le> (500::real) \<and> (500::real) < 1000"
    by simp_all
  from lt moment_unit_guess [of 500 20 415 300 567 tiny_beam r]
  have below: "calculate_required_area_of_steel 500 20 415 300 567 =
      required_area_nmm (500 * 1000000) 20 415 300 567"
    by blast
  from ge moment_unit_guess [of 2000 20 415 300 567 tiny_beam r]
  have above: "calculate_required_area_of_steel 2000 20 415 300 567 =
      required_area_nmm 2000 20 415 300 567"
    by blast
  from range moment_unit_guess [of 500 20 415 300 567 tiny_beam r]
  have callers: "calculate_required_area_of_steel 500 20 415 300 567 =
      calculate_required_area_of_steel (500 * 1000000) 20 415 300 567"
    by blast
  from moment_unit_guess [of 500 20 415 300 567 tiny_beam r] r
  obtain dims loads mats reinf len width depth cover bar_dia cg sg fck' fy' dl ll Mu Areq raw nb
    where reads: "subscript tiny_beam ''dimensions'' = Inr dims"
      "subscript tiny_beam ''loads'' = Inr loads"
      "subscript tiny_beam ''materials'' = Inr mats"
      "subscript tiny_beam ''reinforcement'' = Inr reinf"
      "get_float dims ''length'' (PInt 0) = Inr len"
      "get_float dims ''breadth'' (PInt 0) = Inr width"
      "get_float dims ''depth'' (PInt 0) = Inr depth"
      "get_float reinf ''cover'' (PInt 25) = Inr cover"
      "get_float reinf ''bar_diameter'' (PInt 16) = Inr bar_dia"
      "dict_get mats ''concrete_grade'' (PStr ''M20'') = Inr cg"
      "dict_get mats ''steel_grade'' (PStr ''Fe500'') = Inr sg"
      "get_float loads ''dead_load'' (PInt 0) = Inr dl"
      "get_float loads ''live_load'' (PInt 0) = Inr ll"
      "dict_get reinf ''num_bars'' (PInt 2) = Inr raw" "int_of raw = Inr nb"
      and grades: "table_get CONCRETE_GRADES cg 20 = Inr fck'"
      "table_get STEEL_GRADES sg 500 = Inr fy'"
      and moment: "calculate_design_moment len (LOAD_FACTOR_DEAD * dl + LOAD_FACTOR_LIVE * ll) [] = Inr Mu"
      and area: "calculate_required_area_of_steel (Mu * 1000000) fck' fy' width
          (depth - cover - bar_dia / 2) = Inr Areq"
      and entry: "check_entry r ''flexural_strength'' = Some (PDict
           [(''required_steel'', PFloat (py_round Areq 2)),
            (''provided_steel'', PFloat (py_round (of_int nb * (pi * (bar_dia / 2) ^ 2)) 2)),
            (''pass'', PBool (Areq \<le> of_int nb * (pi * (bar_dia / 2) ^ 2))),
            (''description'', PStr ''Flexural reinforcement adequacy'')])"
      and twice: "Mu * 1000000 < 1000 \<longrightarrow>
         required_area_nmm (Mu * 1000000 * 1000000) fck' fy' width (depth - cover - bar_dia / 2) =
           Inr Areq"
    by blast
  from reads have vals: "len = 1" "width = 300" "depth = 600" "cover = 25" "bar_dia = 16"
    "cg = PStr ''M20''" "sg = PStr ''Fe415''" "dl = 0.004" "ll = 0" "nb = 4"
    by (auto simp: tiny_beam_def get_float_def)
  have g1: "table_get CONCRETE_GRADES (PStr ''M20'') 20 = Inr 20"
    and g2: "table_get STEEL_GRADES (PStr ''Fe415'') 500 = Inr 415"
    by (simp_all add: CONCRETE_GRADES_def STEEL_GRADES_def)
  from grades vals g1 g2 have strengths: "fck' = 20" "fy' = 415"
    by simp_all
  from moment vals have Mu: "Mu = 3 / 4000"
    by (simp add: calculate_design_moment_def LOAD_FACTOR_DEAD_def LOAD_FACTOR_LIVE_def)
  have m: "calculate_design_moment 1 (LOAD_FACTOR_DEAD * 0.004 + LOAD_FACTOR_LIVE * 0) [] = Inr (3 / 4000)"
    using moment vals Mu by simp
  have small: "3 / 4000 * 1000000 < (1000 :: real)" by simp
  have eff: "600 - 25 - 16 / 2 = (567 :: real)" by simp
  have a1: "calculate_required_area_of_steel (3 / 4000 * 1000000) 20 415 300 567 = Inr Areq"
    using area vals strengths Mu by simp
  have a2: "required_area_nmm (3 / 4000 * 1000000 * 1000000) 20 415 300 567 = Inr Areq"
    using twice vals strengths Mu by simp
  have e: "check_entry r ''flexural_strength'' = Some (PDict
        [(''required_steel'', PFloat (py_round Areq 2)),
         (''provided_steel'', PFloat (py_round (4 * (pi * (16 / 2) ^ 2)) 2)),
         (''pass'', PBool (Areq \<le> 4 * (pi * (16 / 2) ^ 2))),
         (''description'', PStr ''Flexural reinforcement adequacy'')])"
    using entry vals by simp
  from r m small g1 g2 eff a1 a2 e
  have "\<exists>r Areq.
      check_beam_body tiny_beam = Inr r \<and>
      calculate_design_moment 1 (LOAD_FACTOR_DEAD * 0.004 + LOAD_FACTOR_LIVE * 0) [] = Inr (3 / 4000) \<and>
      3 / 4000 * 1000000 < (1000 :: real) \<and>
      table_get CONCRETE_GRADES (PStr ''M20'') 20 = Inr 20 \<and>
      table_get STEEL_GRADES (PStr ''Fe415'') 500 = Inr 415 \<and>
      600 - 25 - 16 / 2 = (567 :: real) \<and>
      calculate_required_area_of_steel (3 / 4000 * 1000000) 20 415 300 567 = Inr Areq \<and>
      required_area_nmm (3 / 4000 * 1000000 * 1000000) 20 415 300 567 = Inr Areq \<and>
      check_entry r ''flexural_strength'' = Some (PDict
        [(''required_steel'', PFloat (py_round Areq 2)),
         (''provided_steel'', PFloat (py_round (4 * (pi * (16 / 2) ^ 2)) 2)),
         (''pass'', PBool (Areq \<le> 4 * (pi * (16 / 2) ^ 2))),
         (''description'', PStr ''Flexural reinforcement adequacy'')])"
    by blast
  note twice_converted = this
  obtain r' where r': "check_beam_body beam_scenario = Inr r'"
    using beam_scenario_runs by blast
  from moment_unit_guess [of 500 20 415 300 567 beam_scenario r'] r'
  obtain dims' loads' mats' reinf' len' width' depth' cover' bar_dia' cg' sg' fck'' fy'' dl' ll'
      Mu' Areq' raw' nb'
    where reads': "subscript beam_scenario ''dimensions'' = Inr dims'"
      "subscript beam_scenario ''loads'' = Inr loads'"
      "subscript beam_scenario ''materials'' = Inr mats'"
      "subscript beam_scenario ''reinforcement'' = Inr reinf'"
      "get_float dims' ''length'' (PInt 0) = Inr len'"
      "get_float dims' ''breadth'' (PInt 0) = Inr width'"
      "get_float dims' ''depth'' (PInt 0) = Inr depth'"
      "get_float reinf' ''cover'' (PInt 25) = Inr cover'"
      "get_float reinf' ''bar_diameter'' (PInt 16) = Inr bar_dia'"
      "dict_get mats' ''concrete_grade'' (PStr ''M20'') = Inr cg'"
      "dict_get mats' ''steel_grade'' (PStr ''Fe500'') = Inr sg'"
      "get_float loads' ''dead_load'' (PInt 0) = Inr dl'"
      "get_float loads' ''live_load'' (PInt 0) = Inr ll'"
      "dict_get reinf' ''num_bars'' (PInt 2) = Inr raw'" "int_of raw' = Inr nb'"
      and grades': "table_get CONCRETE_GRADES cg' 20 = Inr fck''"
      "table_get STEEL_GRADES sg' 500 = Inr fy''"
      and moment': "calculate_design_moment len' (LOAD_FACTOR_DEAD * dl' + LOAD_FACTOR_LIVE * ll') [] =
          Inr Mu'"
      and area': "calculate_required_area_of_steel (Mu' * 1000000) fck'' fy'' width'
          (depth' - cover' - bar_dia' / 2) = Inr Areq'"
      and entry': "check_entry r' ''flexural_strength'' = Some (PDict
           [(''required_steel'', PFloat (py_round Areq' 2)),
            (''provided_steel'', PFloat (py_round (of_int nb' * (pi * (bar_dia' / 2) ^ 2)) 2)),
            (''pass'', PBool (Areq' \<le> of_int nb' * (pi * (bar_dia' / 2) ^ 2))),
            (''description'', PStr ''Flexural reinforcement adequacy'')])"
      and once: "1000 \<le> Mu' * 1000000 \<longrightarrow>
         required_area_nmm (Mu' * 1000000) fck'' fy'' width' (depth' - cover' - bar_dia' / 2) =
           Inr Areq'"
    by blast
  from reads' have vals': "len' = 6" "width' = 300" "depth' = 600" "cover' = 25" "bar_dia' = 16"
    "cg' = PStr ''M20''" "sg' = PStr ''Fe415''" "dl' = 2.5" "ll' = 3" "nb' = 4"
    by (auto simp: beam_scenario_def get_float_def)
  from grades' vals' g1 g2 have strengths': "fck'' = 20" "fy'' = 415"
    by simp_all
  from moment' vals' have Mu': "Mu' = 297 / 8"
    by (simp add: calculate_design_moment_def LOAD_FACTOR_DEAD_def LOAD_FACTOR_LIVE_def)
  have m': "calculate_design_moment 6 (LOAD_FACTOR_DEAD * 2.5 + LOAD_FACTOR_LIVE * 3) [] = Inr (297 / 8)"
    using moment' vals' Mu' by simp
  have large: "(1000 :: real) \<le> 297 / 8 * 1000000" by simp
  have a1': "calculate_required_area_of_steel (297 / 8 * 1000000) 20 415 300 567 = Inr Areq'"
    using area' vals' strengths' Mu' by simp
  have a2': "required_area_nmm (297 / 8 * 1000000) 20 415 300 567 = Inr Areq'"
    using once vals' strengths' Mu' by simp
  have e': "check_entry r' ''flexural_strength'' = Some (PDict
        [(''required_steel'', PFloat (py_round Areq' 2)),
         (''provided_steel'', PFloat (py_round (4 * (pi * (16 / 2) ^ 2)) 2)),
         (''pass'', PBool (Areq' \<le> 4 * (pi * (16 / 2) ^ 2))),
         (''description'', PStr ''Flexural reinforcement adequacy'')])"
    using entry' vals' by simp
  from r' m' large a1' a2' e'
  have once_converted: "\<exists>r Areq.
      check_beam_body beam_scenario = Inr r \<and>
      calculate_design_moment 6 (LOAD_FACTOR_DEAD * 2.5 + LOAD_FACTOR_LIVE * 3) [] = Inr (297 / 8) \<and>
      (1000 :: real) \<le> 297 / 8 * 1000000 \<and>
      calculate_required_area_of_steel (297 / 8 * 1000000) 20 415 300 567 = Inr Areq \<and>
      required_area_nmm (297 / 8 * 1000000) 20 415 300 567 = Inr Areq \<and>
      check_entry r ''flexural_strength'' = Some (PDict
        [(''required_steel'', PFloat (py_round Areq 2)),
         (''provided_steel'', PFloat (py_round (4 * (pi * (16 / 2) ^ 2)) 2)),
         (''pass'', PBool (Areq \<le> 4 * (pi * (16 / 2) ^ 2))),
         (''description'', PStr ''Flexural reinforcement adequacy'')])"
    by blast
  from below above callers twice_converted once_converted show ?thesis by (intro conjI)
qed

text \<open>
  C2. Every fault raised inside a member checker or the orchestrator is caught and
  turned into a returned result, so that no exception leaves \<open>check_compliance\<close>.
  The code breaks this at a design record whose \<open>member_type\<close> is not text: the first
  statement of the \<open>try\<close> block raises, the handler reads the local \<open>member_type\<close>
  that was never bound, and UnboundLocalError leaves the function.
\<close>

theorem unbound_member_type_escapes:
  "check_compliance (PDict [(''member_type'', PNone)]) = Inl UnboundLocalError"
  by (simp add: check_compliance_def)




text \<open>
  C4. For every column processed by the automatic load calculator, the \<open>axial_load\<close>
  written into the loads block is the governing combination
  \<open>max(1.5(DL+LL), 1.2(DL+LL+WL), 1.5(DL+0.25 LL+WL))\<close> of the dead, live and wind loads
  recorded in \<open>load_calculations\<close>. For a footing no combination is applied: the loads
  block holds the unfactored \<open>vertical_load = DL + LL + footing self-weight\<close>, the dead
  load, the live load and the wind moment.
\<close>

theorem governing_combination_for_columns:
  "(auto_calculate_loads (PStr ''column'') d = Inr d' \<longrightarrow>
      (\<exists>lc DL LL WL moment.
         subscript d' ''load_calculations'' = Inr lc \<and>
         subscript lc ''total_dead_load'' = Inr (PFloat DL) \<and>
         subscript lc ''total_live_load'' = Inr (PFloat LL) \<and>
         subscript lc ''total_wind_load'' = Inr (PFloat WL) \<and>
         subscript d' ''loads'' = Inr (PDict
           [(''axial_load'', PFloatStr (governing_combination DL LL WL)), (''moment'', moment)]))) \<and>
   (auto_calculate_loads (PStr ''footing'') d = Inr d' \<longrightarrow>
      (\<exists>lc DL LL SW wm.
         subscript d' ''load_calculations'' = Inr lc \<and>
         subscript lc ''total_dead_load'' = Inr (PFloat DL) \<and>
         subscript lc ''total_live_load'' = Inr (PFloat LL) \<and>
         subscript lc ''footing_self_weight'' = Inr (PFloat SW) \<and>
         subscript d' ''loads'' = Inr (PDict
           [(''vertical_load'', PFloatStr (DL + LL + SW)),
            (''dead_load'', PFloatStr DL),
            (''live_load'', PFloatStr LL),
            (''wind_moment'', PFloatStr wm)])))"
proof (intro conjI impI)
  assume "auto_calculate_loads (PStr ''column'') d = Inr d'"
  from auto_column [OF this] obtain dw bd wd where "column_loads dw bd wd = Inr d'"
    by blast
  from column_loads_shape [OF this]
  show "\<exists>lc DL LL WL moment.
         subscript d' ''load_calculations'' = Inr lc \<and>
         subscript lc ''total_dead_load'' = Inr (PFloat DL) \<and>
         subscript lc ''total_live_load'' = Inr (PFloat LL) \<and>
         subscript lc ''total_wind_load'' = Inr (PFloat WL) \<and>
         subscript d' ''loads'' = Inr (PDict
           [(''axial_load'', PFloatStr (governing_combination DL LL WL)), (''moment'', moment)])" .
next
  assume "auto_calculate_loads (PStr ''footing'') d = Inr d'"
  from auto_footing [OF this] obtain dw bd wd where "footing_loads dw bd wd = Inr d'"
    by blast
  from footing_loads_shape [OF this] obtain kvs DL LL SW wm wc nf ta dpf lpf
    where d': "d' = PDict (AList.update ''wind_calculations'' wc (AList.update ''load_calculations''
       (PDict
          [(''dead_load_per_floor'', PFloat dpf),
           (''live_load_per_floor'', PFloat lpf),
           (''total_dead_load'', PFloat DL),
           (''total_live_load'', PFloat LL),
           (''footing_self_weight'', PFloat SW),
           (''num_floors'', nf),
           (''tributary_area'', ta)])
       (AList.update ''loads'' (PDict
          [(''vertical_load'', PFloatStr (DL + LL + SW)),
           (''dead_load'', PFloatStr DL),
           (''live_load'', PFloatStr LL),
           (''wind_moment'', PFloatStr wm)]) kvs)))"
    by blast
  have "subscript d' ''load_calculations'' = Inr (PDict
          [(''dead_load_per_floor'', PFloat dpf),
           (''live_load_per_floor'', PFloat lpf),
           (''total_dead_load'', PFloat DL),
           (''total_live_load'', PFloat LL),
           (''footing_self_weight'', PFloat SW),
           (''num_floors'', nf),
           (''tributary_area'', ta)])"
    and "subscript d' ''loads'' = Inr (PDict
          [(''vertical_load'', PFloatStr (DL + LL + SW)),
           (''dead_load'', PFloatStr DL),
           (''live_load'', PFloatStr LL),
           (''wind_moment'', PFloatStr wm)])"
    unfolding d' by (simp_all add: update_conv')
  moreover have "subscript (PDict
          [(''dead_load_per_floor'', PFloat dpf),
           (''live_load_per_floor'', PFloat lpf),
           (''total_dead_load'', PFloat DL),
           (''total_live_load'', PFloat LL),
           (''footing_self_weight'', PFloat SW),
           (''num_floors'', nf),
           (''tributary_area'', ta)]) ''total_dead_load'' = Inr (PFloat DL)"
    and "subscript (PDict
          [(''dead_load_per_floor'', PFloat dpf),
           (''live_load_per_floor'', PFloat lpf),
           (''total_dead_load'', PFloat DL),
           (''total_live_load'', PFloat LL),
           (''footing_self_weight'', PFloat SW),
           (''num_floors'', nf),
           (''tributary_area'', ta)]) ''total_live_load'' = Inr (PFloat LL)"
    and "subscript (PDict
          [(''dead_load_per_floor'', PFloat dpf),
           (''live_load_per_floor'', PFloat lpf),
           (''total_dead_load'', PFloat DL),
           (''total_live_load'', PFloat LL),
           (''footing_self_weight'', PFloat SW),
           (''num_floors'', nf),
           (''tributary_area'', ta)]) ''footing_self_weight'' = Inr (PFloat SW)"
    by simp_all
  ultimately show "\<exists>lc DL LL SW wm.
         subscript d' ''load_calculations'' = Inr lc \<and>
         subscript lc ''total_dead_load'' = Inr (PFloat DL) \<and>
         subscript lc ''total_live_load'' = Inr (PFloat LL) \<and>
         subscript lc ''footing_self_weight'' = Inr (PFloat SW) \<and>
         subscript d' ''loads'' = Inr (PDict
           [(''vertical_load'', PFloatStr (DL + LL + SW)),
            (''dead_load'', PFloatStr DL),
            (''live_load'', PFloatStr LL),
            (''wind_moment'', PFloatStr wm)])"
    by blast
qed

theorem governing_combination_for_columns_witness:
  "(\<exists>dc. auto_calculate_loads (PStr ''column'') column_scenario = Inr dc \<and>
      (\<exists>lc DL LL WL moment.
         subscript dc ''load_calculations'' = Inr lc \<and>
         subscript lc ''total_dead_load'' = Inr (PFloat DL) \<and>
         subscript lc ''total_live_load'' = Inr (PFloat LL) \<and>
         subscript lc ''total_wind_load'' = Inr (PFloat WL) \<and>
         subscript dc ''loads'' = Inr (PDict
           [(''axial_load'', PFloatStr (governing_combination DL LL WL)), (''moment'', moment)]))) \<and>
   (\<exists>df. auto_calculate_loads (PStr ''footing'') footing_scenario = Inr df \<and>
      (\<exists>lc DL LL SW wm.
         subscript df ''load_calculations'' = Inr lc \<and>
         subscript lc ''total_dead_load'' = Inr (PFloat DL) \<and>
         subscript lc ''total_live_load'' = Inr (PFloat LL) \<and>
         subscript lc ''footing_self_weight'' = Inr (PFloat SW) \<and>
         subscript df ''loads'' = Inr (PDict
           [(''vertical_load'', PFloatStr (DL + LL + SW)),
            (''dead_load'', PFloatStr DL),
            (''live_load'', PFloatStr LL),
            (''wind_moment'', PFloatStr wm)])))"
proof -
  obtain dc where dc: "auto_calculate_loads (PStr ''column'') column_scenario = Inr dc"
    using column_scenario_auto_runs by blast
  obtain df where df: "auto_calculate_loads (PStr ''footing'') footing_scenario = Inr df"
    using footing_scenario_auto by blast
  from dc governing_combination_for_columns [of column_scenario dc]
  have column: "\<exists>lc DL LL WL moment.
         subscript dc ''load_calculations'' = Inr lc \<and>
         subscript lc ''total_dead_load'' = Inr (PFloat DL) \<and>
         subscript lc ''total_live_load'' = Inr (PFloat LL) \<and>
         subscript lc ''total_wind_load'' = Inr (PFloat WL) \<and>
         subscript dc ''loads'' = Inr (PDict
           [(''axial_load'', PFloatStr (governing_combination DL LL WL)), (''moment'', moment)])"
    by blast
  from df governing_combination_for_columns [of footing_scenario df]
  have footing: "\<exists>lc DL LL SW wm.
         subscript df ''load_calculations'' = Inr lc \<and>
         subscript lc ''total_dead_load'' = Inr (PFloat DL) \<and>
         subscript lc ''total_live_load'' = Inr (PFloat LL) \<and>
         subscript lc ''footing_self_weight'' = Inr (PFloat SW) \<and>
         subscript df ''loads'' = Inr (PDict
           [(''vertical_load'', PFloatStr (DL + LL + SW)),
            (''dead_load'', PFloatStr DL),
            (''live_load'', PFloatStr LL),
            (''wind_moment'', PFloatStr wm)])"
    by blast
  from dc column df footing show ?thesis by blast
qed

text \<open>
  The claim as first stated fails for the footing of 2 m x 2 m x 500 mm with the default
  building parameters: the loads block holds 181.00005, 141, 40 and the wind moment
  52.272, while the governing combination of \<open>DL = 141\<close> and \<open>LL = 40\<close> is 271.5 with no
  wind load and 278.772 with the wind force 34.848.
\<close>

theorem footing_loads_not_factored:
  "ebind (auto_calculate_loads (PStr ''footing'') footing_scenario) (\<lambda>d'. subscript d' ''loads'') =
     Inr (PDict
       [(''vertical_load'', PFloatStr 181.00005),
        (''dead_load'', PFloatStr 141),
        (''live_load'', PFloatStr 40),
        (''wind_moment'', PFloatStr 52.272)]) \<and>
   governing_combination 141 40 0 = 271.5 \<and>
   governing_combination 141 40 34.848 = 278.772"
  by (simp add: calculator_defs footing_scenario_def update_conv' governing_combination_def)



text \<open>
  C10. For every footing whose loads block is written by the automatic load calculator,
  the block has the keys \<open>vertical_load\<close>, \<open>dead_load\<close>, \<open>live_load\<close> and
  \<open>wind_moment\<close> and no \<open>axial_load\<close>; the footing checker then reads \<open>axial_load\<close> as
  0 and the bearing capacity as its default 200, so its bearing-pressure check compares the
  footing self-weight divided by the footing area with 200.
\<close>

theorem footing_auto_loads_lack_axial_load:
  assumes "auto_calculate_loads (PStr ''footing'') d = Inr d'"
  shows "(\<exists>vl dl ll wm. subscript d' ''loads'' = Inr (PDict
            [(''vertical_load'', PFloatStr vl), (''dead_load'', PFloatStr dl),
             (''live_load'', PFloatStr ll), (''wind_moment'', PFloatStr wm)])) \<and>
         (check_footing_body d' = Inr r \<longrightarrow>
            (\<exists>dims len br th.
               subscript d' ''dimensions'' = Inr dims \<and>
               get_float dims ''length'' (PInt 0) = Inr len \<and>
               get_float dims ''breadth'' (PInt 0) = Inr br \<and>
               get_float dims ''depth'' (PInt 0) = Inr th \<and>
               len * 1000 * (br * 1000) / 1000000 \<noteq> 0 \<and>
               check_entry r ''bearing_pressure'' = Some (PDict
                 [(''bearing_pressure'', PFloat (py_round
                     ((0 + len * 1000 * (br * 1000) / 1000000 * th / 1000 * CONCRETE_DENSITY) /
                      (len * 1000 * (br * 1000) / 1000000)) 2)),
                  (''safe_bearing_capacity'', PFloat 200),
                  (''pass'', PBool
                     ((0 + len * 1000 * (br * 1000) / 1000000 * th / 1000 * CONCRETE_DENSITY) /
                      (len * 1000 * (br * 1000) / 1000000) \<le> 200)),
                  (''description'', PStr ''Soil bearing pressure check'')])))"
proof -
  from auto_footing [OF assms] obtain dw bd wd where "footing_loads dw bd wd = Inr d'"
    by blast
  from footing_loads_shape [OF this] obtain kvs DL LL SW wm wc nf ta dpf lpf
    where d': "d' = PDict (AList.update ''wind_calculations'' wc (AList.update ''load_calculations''
       (PDict
          [(''dead_load_per_floor'', PFloat dpf),
           (''live_load_per_floor'', PFloat lpf),
           (''total_dead_load'', PFloat DL),
           (''total_live_load'', PFloat LL),
           (''footing_self_weight'', PFloat SW),
           (''num_floors'', nf),
           (''tributary_area'', ta)])
       (AList.update ''loads'' (PDict
          [(''vertical_load'', PFloatStr (DL + LL + SW)),
           (''dead_load'', PFloatStr DL),
           (''live_load'', PFloatStr LL),
           (''wind_moment'', PFloatStr wm)]) kvs)))"
    by blast
  then have loads: "subscript d' ''loads'' = Inr (PDict
          [(''vertical_load'', PFloatStr (DL + LL + SW)),
           (''dead_load'', PFloatStr DL),
           (''live_load'', PFloatStr LL),
           (''wind_moment'', PFloatStr wm)])"
    by (simp add: update_conv')
  have "\<exists>dims len br th.
               subscript d' ''dimensions'' = Inr dims \<and>
               get_float dims ''length'' (PInt 0) = Inr len \<and>
               get_float dims ''breadth'' (PInt 0) = Inr br \<and>
               get_float dims ''depth'' (PInt 0) = Inr th \<and>
               len * 1000 * (br * 1000) / 1000000 \<noteq> 0 \<and>
               check_entry r ''bearing_pressure'' = Some (PDict
                 [(''bearing_pressure'', PFloat (py_round
                     ((0 + len * 1000 * (br * 1000) / 1000000 * th / 1000 * CONCRETE_DENSITY) /
                      (len * 1000 * (br * 1000) / 1000000)) 2)),
                  (''safe_bearing_capacity'', PFloat 200),
                  (''pass'', PBool
                     ((0 + len * 1000 * (br * 1000) / 1000000 * th / 1000 * CONCRETE_DENSITY) /
                      (len * 1000 * (br * 1000) / 1000000) \<le> 200)),
                  (''description'', PStr ''Soil bearing pressure check'')])"
    if run: "check_footing_body d' = Inr r"
  proof -
    from footing_body_bearing [OF run] obtain dims lds len br th ax sbc
      where f: "subscript d' ''dimensions'' = Inr dims" "subscript d' ''loads'' = Inr lds"
        "get_float dims ''length'' (PInt 0) = Inr len"
        "get_float dims ''breadth'' (PInt 0) = Inr br"
        "get_float dims ''depth'' (PInt 0) = Inr th"
        "get_float lds ''axial_load'' (PInt 0) = Inr ax"
        "get_float lds ''safe_bearing_capacity'' (PInt 200) = Inr sbc"
        "len * 1000 * (br * 1000) / 1000000 \<noteq> 0"
        "check_entry r ''bearing_pressure'' = Some (PDict
           [(''bearing_pressure'', PFloat (py_round
               ((ax + len * 1000 * (br * 1000) / 1000000 * th / 1000 * CONCRETE_DENSITY) /
                (len * 1000 * (br * 1000) / 1000000)) 2)),
            (''safe_bearing_capacity'', PFloat sbc),
            (''pass'', PBool
               ((ax + len * 1000 * (br * 1000) / 1000000 * th / 1000 * CONCRETE_DENSITY) /
                (len * 1000 * (br * 1000) / 1000000) \<le> sbc)),
            (''description'', PStr ''Soil bearing pressure check'')])"
      by blast
    from f(2) loads have "lds = PDict
          [(''vertical_load'', PFloatStr (DL + LL + SW)),
           (''dead_load'', PFloatStr DL),
           (''live_load'', PFloatStr LL),
           (''wind_moment'', PFloatStr wm)]"
      by simp
    with f(6) f(7) have "ax = 0" "sbc = 200"
      by (simp_all add: get_float_def)
    with f show ?thesis by blast
  qed
  with loads show ?thesis by blast
qed

theorem footing_auto_loads_lack_axial_load_witness:
  "\<exists>d' r. auto_calculate_loads (PStr ''footing'') footing_scenario = Inr d' \<and>
     check_footing_body d' = Inr r \<and>
     (\<exists>vl dl ll wm. subscript d' ''loads'' = Inr (PDict
            [(''vertical_load'', PFloatStr vl), (''dead_load'', PFloatStr dl),
             (''live_load'', PFloatStr ll), (''wind_moment'', PFloatStr wm)])) \<and>
     (\<exists>dims len br th.
               subscript d' ''dimensions'' = Inr dims \<and>
               get_float dims ''length'' (PInt 0) = Inr len \<and>
               get_float dims ''breadth'' (PInt 0) = Inr br \<and>
               get_float dims ''depth'' (PInt 0) = Inr th \<and>
               len * 1000 * (br * 1000) / 1000000 \<noteq> 0 \<and>
               check_entry r ''bearing_pressure'' = Some (PDict
                 [(''bearing_pressure'', PFloat (py_round
                     ((0 + len * 1000 * (br * 1000) / 1000000 * th / 1000 * CONCRETE_DENSITY) /
                      (len * 1000 * (br * 1000) / 1000000)) 2)),
                  (''safe_bearing_capacity'', PFloat 200),
                  (''pass'', PBool
                     ((0 + len * 1000 * (br * 1000) / 1000000 * th / 1000 * CONCRETE_DENSITY) /
                      (len * 1000 * (br * 1000) / 1000000) \<le> 200)),
                  (''description'', PStr ''Soil bearing pressure check'')]))"
proof -
  obtain r where "ebind (auto_calculate_loads (PStr ''footing'') footing_scenario) check_footing_body = Inr r"
    using footing_scenario_auto_runs by blast
  then obtain d' where auto: "auto_calculate_loads (PStr ''footing'') footing_scenario = Inr d'"
    and run: "check_footing_body d' = Inr r"
    by (elim ebind_InrE)
  from footing_auto_loads_lack_axial_load [OF auto, of r] run auto show ?thesis
    by blast
qed

end
